theory Spec2Isabelle
  imports Complex_Main
begin

section \<open>Scores and evaluations\<close>

text \<open>
  An evaluation object of \<^verbatim>\<open>src/src/App.jsx\<close> carries exactly one of the keys
  \<^verbatim>\<open>cp\<close> and \<^verbatim>\<open>mate\<close> (every object built by \<^verbatim>\<open>analyzeFenOnce\<close> and
  \<^verbatim>\<open>getTerminalEval\<close> does), the best move in UCI notation or \<^verbatim>\<open>null\<close>, and the list of
  principal variations. The test \<^verbatim>\<open>"mate" in ev\<close> is the case distinction on \<open>score\<close>.
\<close>

datatype score = Cp int | Mate int

record pvItem =
  rank :: int
  uci :: string
  pvScore :: score

record evalObj =
  evScore :: score
  bestmoveUci :: "string option"
  multipv :: "pvItem list"

section \<open>The move classifier\<close>

datatype tag = Best | Excellent | Good | Inaccuracy | Mistake | Blunder | Miss
  | Brilliant | Great

text \<open>\<^verbatim>\<open>mateToScore\<close>: \<^verbatim>\<open>Math.sign(mate) * (base - Math.min(99, Math.abs(mate)) * step)\<close>.\<close>

definition mateToScore :: "int \<Rightarrow> int" where
  "mateToScore m =
     (let base = 100000; step = 1000; n = min 99 \<bar>m\<bar>
      in sgn m * (base - n * step))"

text \<open>
  The third argument of \<^verbatim>\<open>classifyMoveByDelta\<close>. A missing \<^verbatim>\<open>bestIsMate\<close> is falsy,
  a \<^verbatim>\<open>deltaMateForMover\<close> that is not a number is \<open>None\<close>.
\<close>

record flags =
  bestIsMate :: bool
  deltaMateForMover :: "int option"

text \<open>The flags of a call that passes none.\<close>

definition noFlags :: flags where
  "noFlags = \<lparr> bestIsMate = False, deltaMateForMover = None \<rparr>"

text \<open>\<^verbatim>\<open>x ?? 0\<close>\<close>

definition orZero :: "int option \<Rightarrow> int" where
  "orZero x = (case x of None \<Rightarrow> 0 | Some v \<Rightarrow> v)"

text \<open>\<^verbatim>\<open>x != null && p(x)\<close>\<close>

definition notNullAnd :: "int option \<Rightarrow> (int \<Rightarrow> bool) \<Rightarrow> bool" where
  "notNullAnd x p = (case x of None \<Rightarrow> False | Some v \<Rightarrow> p v)"

definition classifyMoveByDelta :: "int option \<Rightarrow> int option \<Rightarrow> flags \<Rightarrow> tag" where
  "classifyMoveByDelta bestCp playedCp fl =
     (let loss = orZero bestCp - orZero playedCp in
      case deltaMateForMover fl of
        Some d \<Rightarrow>
          (if d < 0 then Best
           else if d = 0 then Best
           else if d = 1 then Excellent
           else if d \<le> 3 then Good
           else if d \<le> 6 then Inaccuracy
           else if d \<le> 10 then Mistake
           else Mistake)
      | None \<Rightarrow>
          (if loss < - 10 then Best
           else if loss > 300 \<or>
                   (bestCp \<noteq> None \<and> playedCp \<noteq> None \<and>
                     ((orZero bestCp \<ge> 300 \<and> orZero playedCp \<le> 0) \<or>
                      (orZero bestCp \<le> - 300 \<and> orZero playedCp \<ge> 0)))
                then Blunder
           else if (bestIsMate fl \<or> notNullAnd bestCp (\<lambda>b. b \<ge> 300)) \<and>
                   notNullAnd playedCp (\<lambda>p. p \<le> 50) \<and> loss \<le> 200
                then Miss
           else if loss \<le> 10 then Best
           else if loss \<le> 20 then Excellent
           else if loss \<le> 50 then Good
           else if loss \<le> 150 then Inaccuracy
           else if loss \<le> 300 then Mistake
           else Blunder))"

text \<open>
  The part of the \<^verbatim>\<open>annotations\<close> loop that normalises the two adjacent evaluations to
  the mover's perspective and calls the classifier (the statements up to
  \<^verbatim>\<open>let tag = classifyMoveByDelta(...)\<close>).
\<close>

definition bestCpOf :: "evalObj \<Rightarrow> int" where
  "bestCpOf best = (case evScore best of Mate m \<Rightarrow> mateToScore m | Cp c \<Rightarrow> c)"

definition playedCpOf :: "evalObj \<Rightarrow> int" where
  "playedCpOf after =
     (case evScore after of
        Mate m \<Rightarrow> (if m = 0 then 100000 else - mateToScore m)
      | Cp c \<Rightarrow> - c)"

definition bestMateForMover :: "evalObj \<Rightarrow> int option" where
  "bestMateForMover best =
     (case evScore best of Mate m \<Rightarrow> (if sgn m > 0 then Some \<bar>m\<bar> else None) | Cp c \<Rightarrow> None)"

definition playedMateForMover :: "evalObj \<Rightarrow> int option" where
  "playedMateForMover after =
     (case evScore after of
        Mate m \<Rightarrow> (if m = 0 \<or> sgn m < 0 then Some \<bar>m\<bar> else None)
      | Cp c \<Rightarrow> None)"

definition deltaMateOf :: "evalObj \<Rightarrow> evalObj \<Rightarrow> int option" where
  "deltaMateOf best after =
     (case (bestMateForMover best, playedMateForMover after) of
        (Some b, Some p) \<Rightarrow> Some (p - b)
      | _ \<Rightarrow> None)"

definition annotationFlags :: "evalObj \<Rightarrow> evalObj \<Rightarrow> flags" where
  "annotationFlags best after =
     \<lparr> bestIsMate = (case evScore best of Mate m \<Rightarrow> sgn m > 0 | Cp c \<Rightarrow> False),
       deltaMateForMover = deltaMateOf best after \<rparr>"

definition annotationTag :: "evalObj \<Rightarrow> evalObj \<Rightarrow> tag" where
  "annotationTag best after =
     classifyMoveByDelta (Some (bestCpOf best)) (Some (playedCpOf after))
       (annotationFlags best after)"

section \<open>The rules library\<close>

text \<open>
  \<^verbatim>\<open>chess.js\<close> is a dependency of the repository, not part of it. What the code asks of
  it is taken as a parameter, with a position named by its FEN: \<open>loadFen\<close> is
  \<^verbatim>\<open>new Chess(fen)\<close> (\<open>None\<close> when the constructor throws), a position answers whether
  the side to move is in check and lists its legal moves (\<^verbatim>\<open>moves({ verbose: true })\<close>),
  each with its squares, promotion piece, SAN, moved piece and flags; \<^verbatim>\<open>isCheckmate()\<close>
  and \<^verbatim>\<open>isStalemate()\<close> have the library's meaning: no legal move, in check or not.
  \<open>board\<close> is \<^verbatim>\<open>board()\<close>: the rows of the board, a square empty or holding a colour
  and a piece type. \<open>moveSan\<close> is \<^verbatim>\<open>move(san, { sloppy: true })\<close> on the position of a
  FEN: the move played, \<open>None\<close> when the string names no legal move. \<open>fenAfter\<close> is
  \<^verbatim>\<open>fen()\<close> once a move has been played on the position of a FEN; the position that
  the code goes on with after a move is the one this FEN loads.
\<close>

record moveRec =
  moveFrom :: string
  moveTo :: string
  promotion :: string
  san :: string
  movePiece :: string
  moveFlags :: string

record position =
  inCheck :: bool
  moves :: "moveRec list"

record chessLib =
  loadFen :: "string \<Rightarrow> position option"
  board :: "string \<Rightarrow> (string \<times> string) option list list"
  moveSan :: "string \<Rightarrow> string \<Rightarrow> moveRec option"
  fenAfter :: "string \<Rightarrow> moveRec \<Rightarrow> string"

definition isCheckmate :: "position \<Rightarrow> bool" where
  "isCheckmate g = (inCheck g \<and> moves g = [])"

definition isStalemate :: "position \<Rightarrow> bool" where
  "isStalemate g = (\<not> inCheck g \<and> moves g = [])"

text \<open>\<^verbatim>\<open>getTerminalEval\<close>: the score of a finished game, \<open>None\<close> for \<^verbatim>\<open>null\<close>.\<close>

definition getTerminalEval :: "chessLib \<Rightarrow> string \<Rightarrow> score option" where
  "getTerminalEval lib fen =
     (case loadFen lib fen of
        None \<Rightarrow> None
      | Some g \<Rightarrow>
          (if isCheckmate g then Some (Mate 0)
           else if isStalemate g then Some (Cp 0)
           else None))"

text \<open>
  \<^verbatim>\<open>uciToSan\<close>: the legal move whose \<^verbatim>\<open>from + to + (promotion || '')\<close> is the UCI
  string, rendered in SAN; \<^verbatim>\<open>null\<close> when there is none or the library throws.
\<close>

definition uciToSan :: "chessLib \<Rightarrow> string \<Rightarrow> string \<Rightarrow> string option" where
  "uciToSan lib fen u =
     (case loadFen lib fen of
        None \<Rightarrow> None
      | Some g \<Rightarrow>
          (case find (\<lambda>m. moveFrom m @ moveTo m @ promotion m = u) (moves g) of
             None \<Rightarrow> None
           | Some m \<Rightarrow> Some (san m)))"

text \<open>
  \<^verbatim>\<open>normalizeSan\<close>: \<^verbatim>\<open>String(san).replace(/[+#!?]+$/g, '').trim()\<close>. A string is
  the list of its UTF-8 bytes, and \<^verbatim>\<open>trim\<close> removes from both ends the white space and
  line terminators of the language: the ASCII ones, U+00A0, U+1680, U+2000 to U+200A,
  U+2028, U+2029, U+202F, U+205F, U+3000 and U+FEFF.
\<close>

definition isMark :: "char \<Rightarrow> bool" where
  "isMark c = (c \<in> set ''+#!?'')"

definition isSpace :: "char \<Rightarrow> bool" where
  "isSpace c = (c = CHR '' '' \<or> c = CHR 0x09 \<or> c = CHR 0x0A \<or> c = CHR 0x0B
                \<or> c = CHR 0x0C \<or> c = CHR 0x0D)"

definition isSpace2 :: "char \<Rightarrow> char \<Rightarrow> bool" where
  "isSpace2 a b = (a = CHR 0xC2 \<and> b = CHR 0xA0)"

definition isSpace3 :: "char \<Rightarrow> char \<Rightarrow> char \<Rightarrow> bool" where
  "isSpace3 a b c =
     ((a = CHR 0xE1 \<and> b = CHR 0x9A \<and> c = CHR 0x80)
      \<or> (a = CHR 0xE2 \<and> b = CHR 0x80 \<and>
            c \<in> set [CHR 0x80, CHR 0x81, CHR 0x82, CHR 0x83, CHR 0x84, CHR 0x85, CHR 0x86,
                       CHR 0x87, CHR 0x88, CHR 0x89, CHR 0x8A, CHR 0xA8, CHR 0xA9, CHR 0xAF])
      \<or> (a = CHR 0xE2 \<and> b = CHR 0x81 \<and> c = CHR 0x9F)
      \<or> (a = CHR 0xE3 \<and> b = CHR 0x80 \<and> c = CHR 0x80)
      \<or> (a = CHR 0xEF \<and> b = CHR 0xBB \<and> c = CHR 0xBF))"

text \<open>White space removed from the front of the bytes.\<close>

fun trimStart :: "string \<Rightarrow> string" where
  "trimStart (a # b # c # rest) =
     (if isSpace a then trimStart (b # c # rest)
      else if isSpace2 a b then trimStart (c # rest)
      else if isSpace3 a b c then trimStart rest
      else a # b # c # rest)"
| "trimStart [a, b] =
     (if isSpace a then trimStart [b] else if isSpace2 a b then [] else [a, b])"
| "trimStart [a] = (if isSpace a then [] else [a])"
| "trimStart [] = []"

text \<open>The same on the reversed bytes, for the end of the string.\<close>

fun trimStartRev :: "string \<Rightarrow> string" where
  "trimStartRev (c # b # a # rest) =
     (if isSpace c then trimStartRev (b # a # rest)
      else if isSpace2 b c then trimStartRev (a # rest)
      else if isSpace3 a b c then trimStartRev rest
      else c # b # a # rest)"
| "trimStartRev [c, b] =
     (if isSpace c then trimStartRev [b] else if isSpace2 b c then [] else [c, b])"
| "trimStartRev [c] = (if isSpace c then [] else [c])"
| "trimStartRev [] = []"

definition trim :: "string \<Rightarrow> string" where
  "trim s = trimStart (rev (trimStartRev (rev s)))"

definition normalizeSan :: "string \<Rightarrow> string" where
  "normalizeSan s = trim (rev (dropWhile isMark (rev s)))"

text \<open>\<^verbatim>\<open>fen.split(' ')[1]\<close>, \<open>None\<close> for \<^verbatim>\<open>undefined\<close>.\<close>

fun splitOn :: "char \<Rightarrow> string \<Rightarrow> string list" where
  "splitOn c [] = [[]]"
| "splitOn c (x # xs) =
     (if x = c then [] # splitOn c xs
      else (case splitOn c xs of
              [] \<Rightarrow> [[x]]
            | w # ws \<Rightarrow> (x # w) # ws))"

definition fenSide :: "string \<Rightarrow> string option" where
  "fenSide fen = (case splitOn CHR '' '' fen of a # b # rest \<Rightarrow> Some b | _ \<Rightarrow> None)"

text \<open>\<^verbatim>\<open>String.prototype.includes\<close>\<close>

fun includesStr :: "string \<Rightarrow> string \<Rightarrow> bool" where
  "includesStr [] sub = (sub = [])"
| "includesStr (x # xs) sub = (take (length sub) (x # xs) = sub \<or> includesStr xs sub)"

text \<open>\<^verbatim>\<open>getMovedPieceType\<close>: \<^verbatim>\<open>mv.piece || null\<close> of the move the SAN names.\<close>

definition getMovedPieceType :: "chessLib \<Rightarrow> string \<Rightarrow> string \<Rightarrow> string option" where
  "getMovedPieceType lib fen sn =
     (case loadFen lib fen of
        None \<Rightarrow> None
      | Some g \<Rightarrow>
          (case moveSan lib fen sn of
             None \<Rightarrow> None
           | Some mv \<Rightarrow> (if movePiece mv = [] then None else Some (movePiece mv))))"

text \<open>\<^verbatim>\<open>materialScore\<close>: the material of White and of Black on a board.\<close>

definition pieceValue :: "string \<Rightarrow> int" where
  "pieceValue ty =
     (if ty = ''p'' then 1 else if ty = ''n'' then 3 else if ty = ''b'' then 3
      else if ty = ''r'' then 5 else if ty = ''q'' then 9 else 0)"

definition materialScore :: "(string \<times> string) option list list \<Rightarrow> int \<times> int" where
  "materialScore brd =
     foldl (\<lambda>(w, b) sq. case sq of
                            None \<Rightarrow> (w, b)
                          | Some (colour, ty) \<Rightarrow>
                              (if colour = ''w'' then (w + pieceValue ty, b)
                               else (w, b + pieceValue ty)))
       (0, 0) (concat brd)"

text \<open>\<^verbatim>\<open>(moverSide === 'w') ? sco.w : sco.b\<close>\<close>

definition sideVal :: "string option \<Rightarrow> int \<times> int \<Rightarrow> int" where
  "sideVal moverSide sco = (if moverSide = Some ''w'' then fst sco else snd sco)"

text \<open>
  \<^verbatim>\<open>offeredSacrificeLossMagnitude\<close>. Its inner loop runs over the recaptures \<open>rm\<close> of the
  mover on the target square, in the position \<open>fenOpp\<close> after the opponent's capture, and
  keeps the best material of the mover after one of them (\<open>None\<close> for \<^verbatim>\<open>null\<close>).
\<close>

fun bestAfterRecap ::
    "chessLib \<Rightarrow> string \<Rightarrow> string option \<Rightarrow> moveRec list \<Rightarrow> int option \<Rightarrow> int option" where
  "bestAfterRecap lib fenOpp moverSide [] bestAfterRecapScore = bestAfterRecapScore"
| "bestAfterRecap lib fenOpp moverSide (rm # recaps) bestAfterRecapScore =
     (let sco = materialScore (board lib (fenAfter lib fenOpp rm));
          val = sideVal moverSide sco
      in bestAfterRecap lib fenOpp moverSide recaps
           (case bestAfterRecapScore of
              None \<Rightarrow> Some val
            | Some b \<Rightarrow> (if b < val then Some val else Some b)))"

text \<open>
  Its outer loop runs over the opponent's moves \<open>om\<close> in the position \<open>fenA\<close> after the
  mover's move, skips those that are not captures on the target square, and keeps
  \<^verbatim>\<open>found\<close> and \<^verbatim>\<open>worstDelta\<close>. The result is \<open>None\<close> when a position cannot be built:
  the library throws and the function returns \<^verbatim>\<open>null\<close>.
\<close>

fun captureLoop ::
    "chessLib \<Rightarrow> string \<Rightarrow> string option \<Rightarrow> string \<Rightarrow> int \<Rightarrow> moveRec list \<Rightarrow> bool \<times> int
      \<Rightarrow> (bool \<times> int) option" where
  "captureLoop lib fenA moverSide targetSquare baseSideVal [] acc = Some acc"
| "captureLoop lib fenA moverSide targetSquare baseSideVal (om # rest) acc =
     (if moveTo om \<noteq> targetSquare \<or> \<not> includesStr (moveFlags om) ''c''
      then captureLoop lib fenA moverSide targetSquare baseSideVal rest acc
      else (case loadFen lib (fenAfter lib fenA om) of
              None \<Rightarrow> None
            | Some afterOpp \<Rightarrow>
                (let fenOpp = fenAfter lib fenA om;
                     scoAfterOpp = materialScore (board lib fenOpp);
                     recaps = filter (\<lambda>rm. includesStr (moveFlags rm) ''c''
                                            \<and> moveTo rm = targetSquare) (moves afterOpp);
                     bestAfterRecapScore = bestAfterRecap lib fenOpp moverSide recaps None;
                     delta = (case bestAfterRecapScore of
                                Some b \<Rightarrow> b - baseSideVal
                              | None \<Rightarrow> sideVal moverSide scoAfterOpp - baseSideVal)
                 in captureLoop lib fenA moverSide targetSquare baseSideVal rest
                      (if \<not> fst acc \<or> delta < snd acc then (True, delta) else acc))))"

text \<open>
  The function: the value of \<^verbatim>\<open>in_check()\<close> is read and not used; \<open>None\<close> is \<^verbatim>\<open>null\<close>.
\<close>

definition offeredSacrificeLossMagnitude ::
    "chessLib \<Rightarrow> string \<Rightarrow> string \<Rightarrow> string option \<Rightarrow> int option" where
  "offeredSacrificeLossMagnitude lib fen sn moverSide =
     (case loadFen lib fen of
        None \<Rightarrow> None
      | Some before \<Rightarrow>
          (case moveSan lib fen sn of
             None \<Rightarrow> None
           | Some move \<Rightarrow>
               (case loadFen lib (fenAfter lib fen move) of
                  None \<Rightarrow> None
                | Some after \<Rightarrow>
                    (let fenA = fenAfter lib fen move;
                         scoAfter = materialScore (board lib fenA);
                         baseSideVal = sideVal moverSide scoAfter
                     in case captureLoop lib fenA moverSide (moveTo move) baseSideVal
                               (moves after) (False, 0) of
                          None \<Rightarrow> None
                        | Some (found, worstDelta) \<Rightarrow>
                            (if found then Some worstDelta else None)))))"

text \<open>\<^verbatim>\<open>isStrictPieceSacrificeOffer\<close>\<close>

definition isStrictPieceSacrificeOffer ::
    "chessLib \<Rightarrow> string \<Rightarrow> string \<Rightarrow> string option \<Rightarrow> bool" where
  "isStrictPieceSacrificeOffer lib fen sn moverSide =
     (case getMovedPieceType lib fen sn of
        None \<Rightarrow> False
      | Some moved \<Rightarrow>
          (if moved = [] \<or> moved = ''k'' \<or> moved = ''p'' then False
           else (case offeredSacrificeLossMagnitude lib fen sn moverSide of
                   None \<Rightarrow> False
                 | Some loss \<Rightarrow>
                     (if moved = ''q'' then loss \<le> - 5
                      else if moved = ''r'' then loss \<le> - 3
                      else if moved = ''b'' \<or> moved = ''n'' then loss \<le> - 2
                      else False))))"

text \<open>
  The engine's top move of an evaluation:
  \<^verbatim>\<open>ev.bestmoveUci || ev.multipv.find(x => x.rank === 1)?.uci\<close>; an empty string is falsy.
\<close>

definition truthy :: "string option \<Rightarrow> string option" where
  "truthy x = (case x of None \<Rightarrow> None | Some s \<Rightarrow> (if s = [] then None else Some s))"

definition pv1Of :: "evalObj \<Rightarrow> pvItem option" where
  "pv1Of ev = find (\<lambda>x. rank x = 1) (multipv ev)"

definition topUci :: "evalObj \<Rightarrow> string option" where
  "topUci ev =
     (case truthy (bestmoveUci ev) of
        Some u \<Rightarrow> Some u
      | None \<Rightarrow> truthy (map_option uci (pv1Of ev)))"

definition topSan :: "chessLib \<Rightarrow> string \<Rightarrow> evalObj \<Rightarrow> string option" where
  "topSan lib fen ev =
     (case topUci ev of None \<Rightarrow> None | Some u \<Rightarrow> truthy (uciToSan lib fen u))"

section \<open>The engine and the state of the component\<close>

text \<open>
  The engine is an external process behind a \<^verbatim>\<open>Worker\<close>. It is a parameter of the
  model: whether a worker can be built from a URL (\<^verbatim>\<open>new Worker\<close> may throw), the state
  of a fresh engine, how a posted command changes that state, and the value the promise
  of \<^verbatim>\<open>analyzeFenOnce\<close> resolves to once the engine has answered the search
  (\<open>None\<close> for \<^verbatim>\<open>null\<close>).
\<close>

record 'es engineModel =
  creatable :: "string \<Rightarrow> bool"
  boot :: "string \<Rightarrow> 'es"
  onCommand :: "'es \<Rightarrow> string \<Rightarrow> 'es"
  resolved :: "'es \<Rightarrow> evalObj option"

text \<open>
  The state of \<^verbatim>\<open>App\<close> that the session, the channel and the scheduler read and
  write: the React state (\<open>engineReady\<close>, \<open>fens\<close>, \<open>sans\<close>, \<open>evals\<close>,
  \<open>thinking\<close>, \<open>analyzeProgress\<close>), the refs (\<open>workerRef\<close>, the URL of the current
  worker, and \<open>evalCacheRef\<close>), the variables of the start-up effect
  (\<open>candidateIndex\<close>, \<open>timeoutToken\<close>, and \<open>loadingTimeout\<close>, the token of the armed
  timer, \<open>None\<close> when it is cleared or has fired), and what the code does to the outside:
  the commands posted to the worker, the workers created and terminated, and the calls
  of \<^verbatim>\<open>setEngineReady\<close>. An entry of \<open>evals\<close> that is \<^verbatim>\<open>null\<close> or missing is
  \<open>None\<close>: every reader tests it for truthiness only.
\<close>

record 'es app =
  engineReady :: bool
  fens :: "string list"
  sans :: "string list"
  evals :: "nat \<rightharpoonup> evalObj"
  thinking :: bool
  analyzeProgress :: rat
  workerRef :: "string option"
  evalCacheRef :: "string \<rightharpoonup> evalObj"
  candidateIndex :: nat
  timeoutToken :: nat
  loadingTimeout :: "nat option"
  engine :: 'es
  posted :: "string list"
  created :: "string list"
  terminated :: "string list"
  readyCalls :: "bool list"

definition postMessage :: "'es engineModel \<Rightarrow> string \<Rightarrow> 'es app \<Rightarrow> 'es app" where
  "postMessage E msg a =
     a\<lparr> posted := posted a @ [msg], engine := onCommand E (engine a) msg \<rparr>"

definition setEngineReady :: "bool \<Rightarrow> 'es app \<Rightarrow> 'es app" where
  "setEngineReady b a = a\<lparr> engineReady := b, readyCalls := readyCalls a @ [b] \<rparr>"

definition clearTimeout :: "'es app \<Rightarrow> 'es app" where
  "clearTimeout a = a\<lparr> loadingTimeout := None \<rparr>"

section \<open>The engine session\<close>

definition defaultUrl :: string where
  "defaultUrl = ''/stockfish/stockfish-17.1-8e4d048.js''"

text \<open>The list \<^verbatim>\<open>candidates\<close> as the source builds it.\<close>

definition candidates :: "string list" where
  "candidates = [''/stockfish/stockfish-17.1-8e4d048.js'']"

text \<open>\<^verbatim>\<open>createStockfishWorker\<close>: \<open>None\<close> when the constructor throws.\<close>

definition createStockfishWorker :: "'es engineModel \<Rightarrow> string \<Rightarrow> 'es app \<Rightarrow> 'es app option" where
  "createStockfishWorker E url a =
     (if creatable E url then Some (a\<lparr> created := created a @ [url] \<rparr>) else None)"

text \<open>
  \<^verbatim>\<open>setupWorker\<close>, for the worker just created from \<open>url\<close>: it becomes the current
  worker, the watchdog is armed under a new token, and \<^verbatim>\<open>uci\<close> is posted.
\<close>

definition setupWorker :: "'es engineModel \<Rightarrow> string \<Rightarrow> 'es app \<Rightarrow> 'es app" where
  "setupWorker E url a =
     (let a1 = a\<lparr> workerRef := Some url, engine := boot E url \<rparr>;
          a2 = clearTimeout a1;
          myToken = timeoutToken a2 + 1;
          a3 = a2\<lparr> timeoutToken := myToken, loadingTimeout := Some myToken \<rparr>
      in postMessage E ''uci'' a3)"

text \<open>
  \<^verbatim>\<open>tryNextCandidate\<close>, over any list of candidates: the worker is terminated, the
  index advances by one, and the candidate at the new index is set up when there is one
  and its worker can be created; otherwise \<^verbatim>\<open>setEngineReady(false)\<close>.
\<close>

definition tryNextCandidate :: "'es engineModel \<Rightarrow> string list \<Rightarrow> 'es app \<Rightarrow> bool \<times> 'es app" where
  "tryNextCandidate E cands a =
     (let a1 = (case workerRef a of
                  None \<Rightarrow> a
                | Some w \<Rightarrow> a\<lparr> terminated := terminated a @ [w] \<rparr>);
          a2 = clearTimeout a1;
          a3 = a2\<lparr> candidateIndex := candidateIndex a2 + 1 \<rparr>;
          failed = (False, setEngineReady False (clearTimeout a3))
      in if candidateIndex a3 < length cands
         then (case createStockfishWorker E (cands ! candidateIndex a3) a3 of
                 Some a4 \<Rightarrow> (True, setupWorker E (cands ! candidateIndex a3) a4)
               | None \<Rightarrow> failed)
         else failed)"

text \<open>The body of the start-up effect.\<close>

definition startEngine :: "'es engineModel \<Rightarrow> string list \<Rightarrow> 'es app \<Rightarrow> 'es app" where
  "startEngine E cands a =
     (let a0 = a\<lparr> timeoutToken := 0, candidateIndex := 0, loadingTimeout := None \<rparr>;
          url = (case cands of [] \<Rightarrow> defaultUrl | c # cs \<Rightarrow> c)
      in case createStockfishWorker E url a0 of
           Some a1 \<Rightarrow> setupWorker E url a1
         | None \<Rightarrow> snd (tryNextCandidate E cands a0))"

text \<open>
  What reaches the session: a message of the current worker (a string, or an object with
  a \<^verbatim>\<open>type\<close> and a \<^verbatim>\<open>message\<close>), its \<^verbatim>\<open>error\<close> and \<^verbatim>\<open>messageerror\<close> events, and
  the watchdog timer firing.
\<close>

datatype event =
    Line string
  | Object string "string option"
  | ErrorEvent
  | MessageError
  | WatchdogFires

definition signalsReady :: "string \<Rightarrow> bool" where
  "signalsReady l = (includesStr l ''uciok'' \<or> includesStr l ''readyok'')"

definition watchdog :: "'es app \<Rightarrow> 'es app" where
  "watchdog a =
     (case loadingTimeout a of
        None \<Rightarrow> a
      | Some myToken \<Rightarrow>
          (let a1 = a\<lparr> loadingTimeout := None \<rparr>
           in if myToken \<noteq> timeoutToken a1 then a1 else setEngineReady False a1))"

definition onEvent :: "'es engineModel \<Rightarrow> string list \<Rightarrow> event \<Rightarrow> 'es app \<Rightarrow> 'es app" where
  "onEvent E cands ev a =
     (case ev of
        Line l \<Rightarrow>
          (if signalsReady l then setEngineReady True (clearTimeout a) else a)
      | Object ty msg \<Rightarrow>
          (let a1 = (if ty = ''ready'' then setEngineReady True (clearTimeout a) else a)
           in if ty = ''error'' then snd (tryNextCandidate E cands a1)
              else if ty = ''log''
                then (case msg of
                        None \<Rightarrow> a1
                      | Some m \<Rightarrow>
                          (if m \<noteq> [] \<and> signalsReady m
                           then setEngineReady True (clearTimeout a1) else a1))
              else a1)
      | ErrorEvent \<Rightarrow> snd (tryNextCandidate E cands a)
      | MessageError \<Rightarrow> a
      | WatchdogFires \<Rightarrow> watchdog a)"

text \<open>The events whose handlers call \<^verbatim>\<open>tryNextCandidate\<close>.\<close>

definition advancing :: "event \<Rightarrow> bool" where
  "advancing ev =
     (case ev of ErrorEvent \<Rightarrow> True | Object ty msg \<Rightarrow> ty = ''error'' | _ \<Rightarrow> False)"

fun run :: "'es engineModel \<Rightarrow> string list \<Rightarrow> event list \<Rightarrow> 'es app \<Rightarrow> 'es app" where
  "run E cands [] a = a"
| "run E cands (ev # evs) a = run E cands evs (onEvent E cands ev a)"

section \<open>The evaluation channel and its cache\<close>

text \<open>The decimal text of a number in a template string.\<close>

definition digitChar :: "nat \<Rightarrow> char" where
  "digitChar n = ''0123456789'' ! (n mod 10)"

fun showNat :: "nat \<Rightarrow> string" where
  "showNat n = (if n < 10 then [digitChar n] else showNat (n div 10) @ [digitChar n])"

declare showNat.simps [simp del]

definition showInt :: "int \<Rightarrow> string" where
  "showInt i = (if i < 0 then CHR ''-'' # showNat (nat (- i)) else showNat (nat i))"

text \<open>The cache key \<^verbatim>\<open>`${fen}|mv:${movetime ?? ''}|dp:${depth}|mpv:${multiPV}`\<close>.\<close>

definition cacheKey :: "string \<Rightarrow> int option \<Rightarrow> int \<Rightarrow> int \<Rightarrow> string" where
  "cacheKey fen mt dp mpv =
     fen @ ''|mv:'' @ (case mt of None \<Rightarrow> [] | Some t \<Rightarrow> showInt t)
         @ ''|dp:'' @ showInt dp @ ''|mpv:'' @ showInt mpv"

text \<open>
  The second argument of \<^verbatim>\<open>analyzeFenOnce\<close>: an options object, or a depth
  (\<open>None\<close> for a missing one, which the default \<open>12\<close> replaces).
\<close>

record searchOpts =
  optDepth :: "int option"
  optMovetime :: "int option"
  optMultiPV :: "int option"

datatype optsArg = OptsObject searchOpts | DepthNumber "int option"

text \<open>The search parameters \<open>(movetime, depth, multiPV)\<close> that the arguments determine.\<close>

definition searchParams :: "optsArg \<Rightarrow> int option \<Rightarrow> int option \<times> int \<times> int" where
  "searchParams arg multiPVArg =
     (case arg of
        OptsObject ob \<Rightarrow>
          (optMovetime ob,
           (case optDepth ob of None \<Rightarrow> 12 | Some d \<Rightarrow> d),
           (case optMultiPV ob of
              Some m \<Rightarrow> m
            | None \<Rightarrow> (case multiPVArg of None \<Rightarrow> 5 | Some m \<Rightarrow> m)))
      | DepthNumber d \<Rightarrow>
          (None,
           (case d of None \<Rightarrow> 12 | Some d' \<Rightarrow> d'),
           (case multiPVArg of None \<Rightarrow> 5 | Some m \<Rightarrow> m)))"

text \<open>
  \<^verbatim>\<open>analyzeFenOnce\<close>: the value the promise resolves to and the state afterwards. On
  the engine path the three commands are posted and the promise resolves to what the
  engine's answer parses to.
\<close>

definition analyzeFenOnce ::
    "chessLib \<Rightarrow> 'es engineModel \<Rightarrow> string \<Rightarrow> optsArg \<Rightarrow> int option \<Rightarrow> 'es app
      \<Rightarrow> evalObj option \<times> 'es app" where
  "analyzeFenOnce lib E fen arg multiPVArg a =
     (case workerRef a of
        None \<Rightarrow> (None, a)
      | Some w \<Rightarrow>
          (case searchParams arg multiPVArg of
             (mt, dp, mpv) \<Rightarrow>
               (case getTerminalEval lib fen of
                  Some terminal \<Rightarrow>
                    (let res = \<lparr> evScore = terminal, bestmoveUci = None, multipv = [] \<rparr>
                     in (Some res,
                         a\<lparr> evalCacheRef := (evalCacheRef a)(cacheKey fen mt dp mpv \<mapsto> res) \<rparr>))
                | None \<Rightarrow>
                    (case evalCacheRef a (cacheKey fen mt dp mpv) of
                       Some hit \<Rightarrow> (Some hit, a)
                     | None \<Rightarrow>
                         (let a1 = postMessage E (''setoption name MultiPV value '' @ showInt mpv) a;
                              a2 = postMessage E (''position fen '' @ fen) a1;
                              a3 = (case mt of
                                      Some t \<Rightarrow> postMessage E (''go movetime '' @ showInt t) a2
                                    | None \<Rightarrow> postMessage E (''go depth '' @ showInt dp) a2)
                          in (resolved E (engine a3), a3))))))"

section \<open>The analysis scheduler\<close>

record analyzeOpts =
  fastFirstPass :: bool
  movetime :: int
  multiPV :: int
  stableFinalPass :: bool
  stableDepth :: int
  stableMultiPV :: int


text \<open>The commands that reset the engine before a pass.\<close>

definition prepare :: "'es engineModel \<Rightarrow> int \<Rightarrow> 'es app \<Rightarrow> 'es app" where
  "prepare E mpv a =
     foldl (\<lambda>st msg. postMessage E msg st) a
       [''ucinewgame'',
        ''setoption name Clear Hash value true'',
        ''setoption name Threads value 1'',
        ''setoption name Hash value 32'',
        ''setoption name Ponder value false'',
        ''setoption name UCI_AnalyseMode value true'',
        ''setoption name UCI_LimitStrength value false'',
        ''setoption name Skill Level value 20'',
        ''setoption name Contempt value 0'',
        ''setoption name MultiPV value '' @ showInt mpv]"

text \<open>
  The first loop of \<^verbatim>\<open>analyzeAll\<close>, from index \<open>i\<close> over the remaining positions;
  \<open>n\<close> is \<^verbatim>\<open>fenList.length\<close>, \<open>(mt, dp, mpv)\<close> the fields of \<^verbatim>\<open>opts\<close>.
\<close>

fun firstPass ::
    "chessLib \<Rightarrow> 'es engineModel \<Rightarrow> int option \<times> int \<times> int \<Rightarrow> nat \<Rightarrow> string list \<Rightarrow> nat
      \<Rightarrow> (nat \<rightharpoonup> evalObj) \<Rightarrow> 'es app \<Rightarrow> (nat \<rightharpoonup> evalObj) \<times> 'es app" where
  "firstPass lib E opts n [] i nxt a = (nxt, a)"
| "firstPass lib E opts n (fen # rest) i nxt a =
     (case opts of
        (mt, dp, mpv) \<Rightarrow>
          (case analyzeFenOnce lib E fen
                  (OptsObject \<lparr> optDepth = Some dp, optMovetime = mt, optMultiPV = Some mpv \<rparr>)
                  None a of
             (ev, a1) \<Rightarrow>
               (let nxt' = (case ev of None \<Rightarrow> nxt | Some e \<Rightarrow> nxt(i \<mapsto> e));
                    a2 = (case ev of
                            None \<Rightarrow> a1
                          | Some e \<Rightarrow>
                              a1\<lparr> evalCacheRef :=
                                    (evalCacheRef a1)(cacheKey fen mt dp mpv \<mapsto> e) \<rparr>);
                    a3 = a2\<lparr> analyzeProgress := of_nat (i + 1) / of_nat n \<rparr>
                in firstPass lib E opts n rest (i + 1) nxt' a3)))"

text \<open>The loop of the stable pass: \<^verbatim>\<open>finalEvals[i] = ev2\<close>, or \<^verbatim>\<open>next[i] ?? null\<close>.\<close>

fun stablePass ::
    "chessLib \<Rightarrow> 'es engineModel \<Rightarrow> int \<times> int \<Rightarrow> nat \<Rightarrow> (nat \<rightharpoonup> evalObj) \<Rightarrow> string list \<Rightarrow> nat
      \<Rightarrow> (nat \<rightharpoonup> evalObj) \<Rightarrow> 'es app \<Rightarrow> (nat \<rightharpoonup> evalObj) \<times> 'es app" where
  "stablePass lib E opts n nxt [] i fin a = (fin, a)"
| "stablePass lib E opts n nxt (fen # rest) i fin a =
     (case opts of
        (dp, mpv) \<Rightarrow>
          (case analyzeFenOnce lib E fen
                  (OptsObject \<lparr> optDepth = Some dp, optMovetime = None, optMultiPV = Some mpv \<rparr>)
                  None a of
             (ev2, a1) \<Rightarrow>
               (let fin' = (case ev2 of None \<Rightarrow> fin(i := nxt i) | Some e \<Rightarrow> fin(i \<mapsto> e));
                    a2 = a1\<lparr> analyzeProgress := of_nat (i + 1) / of_nat n \<rparr>
                in stablePass lib E opts n nxt rest (i + 1) fin' a2)))"

text \<open>\<^verbatim>\<open>sans[i]\<close> when it is truthy.\<close>

definition sanAt :: "string list \<Rightarrow> nat \<Rightarrow> string option" where
  "sanAt ss i = (if i < length ss then truthy (Some (ss ! i)) else None)"

text \<open>
  \<^verbatim>\<open>a && b && normalizeSan(a) === normalizeSan(b)\<close> for the engine's top move \<open>a\<close>
  and the played move \<open>b\<close>.
\<close>

definition sameMove :: "string option \<Rightarrow> string \<Rightarrow> bool" where
  "sameMove topMove played =
     (case topMove of None \<Rightarrow> False | Some t \<Rightarrow> normalizeSan t = normalizeSan played)"

text \<open>
  One iteration of the verification loop at index \<open>i\<close>: positions that are not
  sacrifice candidates, or whose played move is already the top move, are skipped; the
  others are searched deeper, and the deeper evaluation is recorded only when its top
  move is the played move.
\<close>

definition deepen ::
    "chessLib \<Rightarrow> 'es engineModel \<Rightarrow> int \<times> int \<Rightarrow> string \<Rightarrow> nat \<Rightarrow> (nat \<rightharpoonup> evalObj) \<Rightarrow> 'es app
      \<Rightarrow> (nat \<rightharpoonup> evalObj) \<times> 'es app" where
  "deepen lib E opts fen i fin a =
     (case opts of
        (deepDepth, deepMultiPV) \<Rightarrow>
          (case fin i of
             None \<Rightarrow> (fin, a)
           | Some cur \<Rightarrow>
               (if fen = [] then (fin, a)
                else (case sanAt (sans a) i of
                        None \<Rightarrow> (fin, a)
                      | Some playedSan \<Rightarrow>
                          (if \<not> isStrictPieceSacrificeOffer lib fen playedSan (fenSide fen)
                             then (fin, a)
                           else if sameMove (topSan lib fen cur) playedSan then (fin, a)
                           else (case analyzeFenOnce lib E fen
                                        (OptsObject \<lparr> optDepth = Some deepDepth,
                                            optMovetime = None,
                                            optMultiPV = Some deepMultiPV \<rparr>)
                                        None a of
                                   (None, a1) \<Rightarrow> (fin, a1)
                                 | (Some evDeep, a1) \<Rightarrow>
                                     (if sameMove (topSan lib fen evDeep) playedSan
                                      then (fin(i \<mapsto> evDeep), a1)
                                      else (fin, a1))))))))"

fun deepPass ::
    "chessLib \<Rightarrow> 'es engineModel \<Rightarrow> int \<times> int \<Rightarrow> string list \<Rightarrow> nat
      \<Rightarrow> (nat \<rightharpoonup> evalObj) \<Rightarrow> 'es app \<Rightarrow> (nat \<rightharpoonup> evalObj) \<times> 'es app" where
  "deepPass lib E opts [] i fin a = (fin, a)"
| "deepPass lib E opts (fen # rest) i fin a =
     (case deepen lib E opts fen i fin a of
        (fin', a1) \<Rightarrow> deepPass lib E opts rest (i + 1) fin' a1)"

text \<open>
  \<^verbatim>\<open>analyzeAll(depth, list, options)\<close> in its three phases. Each phase takes the state
  and gives the evaluation map it has built with the new state: the first loop
  (\<^verbatim>\<open>next\<close>), the stable pass (\<^verbatim>\<open>finalEvals\<close>, which is \<^verbatim>\<open>next\<close> itself when the pass
  is switched off), and the verification loop over the indices below
  \<^verbatim>\<open>fenList.length - 1\<close>.
\<close>

definition firstPhase ::
    "chessLib \<Rightarrow> 'es engineModel \<Rightarrow> int \<Rightarrow> string list \<Rightarrow> analyzeOpts \<Rightarrow> 'es app
      \<Rightarrow> (nat \<rightharpoonup> evalObj) \<times> 'es app" where
  "firstPhase lib E depth fenList ob a =
     (let a2 = prepare E (if fastFirstPass ob then multiPV ob else stableMultiPV ob) a;
          opts = (if fastFirstPass ob
                  then (Some (movetime ob), min depth 12, multiPV ob)
                  else (None, depth, 5))
      in firstPass lib E opts (length fenList) fenList 0 Map.empty a2)"

definition stablePhase ::
    "chessLib \<Rightarrow> 'es engineModel \<Rightarrow> string list \<Rightarrow> analyzeOpts \<Rightarrow> (nat \<rightharpoonup> evalObj) \<times> 'es app
      \<Rightarrow> (nat \<rightharpoonup> evalObj) \<times> 'es app" where
  "stablePhase lib E fenList ob st =
     (case st of
        (nxt, a) \<Rightarrow>
          (if stableFinalPass ob
           then stablePass lib E (stableDepth ob, stableMultiPV ob) (length fenList) nxt
                  fenList 0 Map.empty (prepare E (stableMultiPV ob) a)
           else (nxt, a)))"





text \<open>
  The state in which the verification loop reaches each of its positions: the same
  recursion as \<open>deepPass\<close>, keeping the state before each iteration.
\<close>

fun deepStates ::
    "chessLib \<Rightarrow> 'es engineModel \<Rightarrow> int \<times> int \<Rightarrow> string list \<Rightarrow> nat
      \<Rightarrow> (nat \<rightharpoonup> evalObj) \<Rightarrow> 'es app \<Rightarrow> 'es app list" where
  "deepStates lib E opts [] i fin a = []"
| "deepStates lib E opts (fen # rest) i fin a =
     a # (case deepen lib E opts fen i fin a of
            (fin', a1) \<Rightarrow> deepStates lib E opts rest (i + 1) fin' a1)"



section \<open>Per-move accuracy\<close>

definition cpLossOf :: "evalObj \<Rightarrow> evalObj \<Rightarrow> int" where
  "cpLossOf best after = max 0 (bestCpOf best - playedCpOf after)"

definition getCpFromItem :: "pvItem \<Rightarrow> int" where
  "getCpFromItem item = (case pvScore item of Mate m \<Rightarrow> mateToScore m | Cp c \<Rightarrow> c)"

text \<open>\<^verbatim>\<open>a && b && a === b\<close>\<close>

definition sameSan :: "string option \<Rightarrow> string option \<Rightarrow> bool" where
  "sameSan x y = (case (truthy x, truthy y) of (Some s, Some t) \<Rightarrow> t = s | _ \<Rightarrow> False)"

text \<open>
  The hybrid perfect-move detection of \<^verbatim>\<open>playerStats\<close>: the played move is the top
  line, or a line other than rank 1 whose score is within 10 centipawns of rank 1.
\<close>

definition matchesTopLines :: "chessLib \<Rightarrow> string \<Rightarrow> evalObj \<Rightarrow> string option \<Rightarrow> bool" where
  "matchesTopLines lib fen best playedSan =
     (if sameSan (topSan lib fen best) playedSan then True
      else (case pv1Of best of
              None \<Rightarrow> False
            | Some pv1 \<Rightarrow>
                list_ex (\<lambda>alt. rank alt \<noteq> 1
                            \<and> \<bar>getCpFromItem pv1 - getCpFromItem alt\<bar> \<le> 10
                            \<and> sameSan (case truthy (Some (uci alt)) of
                                          None \<Rightarrow> None
                                        | Some u \<Rightarrow> uciToSan lib fen u) playedSan)
                  (multipv best)))"

text \<open>The move accelerates a mate against the mover.\<close>

definition acceleratesMate :: "evalObj \<Rightarrow> evalObj \<Rightarrow> bool" where
  "acceleratesMate best after =
     (case (evScore best, evScore after) of
        (Mate b, Mate p) \<Rightarrow> sgn b < 0 \<and> sgn p > 0 \<and> \<bar>p\<bar> < \<bar>b\<bar>
      | _ \<Rightarrow> False)"

definition forcedPerfect :: "chessLib \<Rightarrow> string \<Rightarrow> evalObj \<Rightarrow> evalObj \<Rightarrow> string option \<Rightarrow> bool" where
  "forcedPerfect lib fen best after playedSan =
     (let fp0 = matchesTopLines lib fen best playedSan;
          fp1 = (if fp0 \<and> acceleratesMate best after then False else fp0)
      in if \<not> fp1 \<and> cpLossOf best after \<le> 10 then True else fp1)"

text \<open>
  The test of the recapture boost in \<^verbatim>\<open>playerStats\<close>, without its bound on the loss:
  the played move is a capture and the mover's material after it is not below the
  material before it; \<open>False\<close> too when the library throws.
\<close>

definition captureKeepsMaterial :: "chessLib \<Rightarrow> string \<Rightarrow> string \<Rightarrow> string option \<Rightarrow> bool" where
  "captureKeepsMaterial lib fen sn moverSide =
     (case loadFen lib fen of
        None \<Rightarrow> False
      | Some g0 \<Rightarrow>
          (case moveSan lib fen sn of
             None \<Rightarrow> False
           | Some m \<Rightarrow>
               (if includesStr (moveFlags m) ''c''
                then (case loadFen lib (fenAfter lib fen m) of
                        None \<Rightarrow> False
                      | Some g1 \<Rightarrow>
                          (let beforeMat = materialScore (board lib fen);
                               afterMat = materialScore (board lib (fenAfter lib fen m))
                           in sideVal moverSide beforeMat \<le> sideVal moverSide afterMat))
                else False)))"

text \<open>
  \<^verbatim>\<open>moveAccuracy\<close> of one move after the clamp. The decay curve is the source's
  \<^verbatim>\<open>Math.pow\<close> and \<^verbatim>\<open>Math.exp\<close> expression over the reals.
\<close>

definition moveAccuracy :: "chessLib \<Rightarrow> string \<Rightarrow> evalObj \<Rightarrow> evalObj \<Rightarrow> string option \<Rightarrow> real" where
  "moveAccuracy lib fen best after playedSan =
     (let cpLoss = cpLossOf best after;
          acc =
            (if forcedPerfect lib fen best after playedSan then 100
             else if evScore after = Mate 0 then 100
             else if (case evScore best of Mate m \<Rightarrow> sgn m > 0 | Cp c \<Rightarrow> False) then 30
             else (let baseAcc = max 0 (100 - 0.45 * (real_of_int cpLoss) powr 0.88);
                       eq = exp (- ((min \<bar>real_of_int (bestCpOf best)\<bar> 200 / 120) ^ 2));
                       eqFactor = 0.7 + 0.3 * eq;
                       acc0 = baseAcc * eqFactor
                   in if (case playedSan of
                            None \<Rightarrow> False
                          | Some s \<Rightarrow> captureKeepsMaterial lib fen s (fenSide fen))
                         \<and> cpLoss \<le> 30
                      then max acc0 95 else acc0))
      in max 0 (min 100 acc))"

section \<open>Concrete inputs\<close>

text \<open>The state of the component when it mounts, with a given engine state.\<close>

definition initialApp :: "'es \<Rightarrow> 'es app" where
  "initialApp es =
     \<lparr> engineReady = False, fens = [], sans = [], evals = Map.empty, thinking = False,
       analyzeProgress = 0, workerRef = None, evalCacheRef = Map.empty,
       candidateIndex = 0, timeoutToken = 0, loadingTimeout = None, engine = es,
       posted = [], created = [], terminated = [], readyCalls = [] \<rparr>"

text \<open>The state once a worker has reported ready.\<close>

definition readyApp :: "'es \<Rightarrow> 'es app" where
  "readyApp es = (initialApp es)\<lparr> engineReady := True, workerRef := Some defaultUrl \<rparr>"

text \<open>
  The positions of the game \<^verbatim>\<open>1. e3 d6 2. Qg4\<close>, in which White leaves the queen to the
  bishop on c8, and the position after the bishop has taken it; the position after
  \<^verbatim>\<open>1. e4 e5 2. Qh5 Nc6 3. Bc4 Nf6\<close>; and the position after \<^verbatim>\<open>1. f3 e5 2. g4 Qh4#\<close>,
  in which White is mated.
\<close>

definition startFen :: string where
  "startFen = ''rnbqkbnr/pppppppp/8/8/8/8/PPPPPPPP/RNBQKBNR w KQkq - 0 1''"

definition afterE3Fen :: string where
  "afterE3Fen = ''rnbqkbnr/pppppppp/8/8/8/4P3/PPPP1PPP/RNBQKBNR b KQkq - 0 1''"

definition afterD6Fen :: string where
  "afterD6Fen = ''rnbqkbnr/ppp1pppp/3p4/8/8/4P3/PPPP1PPP/RNBQKBNR w KQkq - 0 2''"

definition afterQg4Fen :: string where
  "afterQg4Fen = ''rnbqkbnr/ppp1pppp/3p4/8/6Q1/4P3/PPPP1PPP/RNB1KBNR b KQkq - 1 2''"

definition afterBxg4Fen :: string where
  "afterBxg4Fen = ''rn1qkbnr/ppp1pppp/3p4/8/6b1/4P3/PPPP1PPP/RNB1KBNR w KQkq - 0 3''"

definition sacFen :: string where
  "sacFen = ''r1bqkb1r/pppp1ppp/2n2n2/4p2Q/2B1P3/8/PPPP1PPP/RNB1K1NR w KQkq - 4 4''"

definition matedFen :: string where
  "matedFen = ''rnb1kbnr/pppp1ppp/8/4p3/6Pq/5P2/PPPPP2P/RNBQKBNR w KQkq - 1 3''"

text \<open>A legal move as the rules library lists it.\<close>

definition mf :: "string \<Rightarrow> string \<Rightarrow> string \<Rightarrow> string \<Rightarrow> string \<Rightarrow> string \<Rightarrow> moveRec" where
  "mf frm to pr sn pc fl =
     \<lparr> moveFrom = frm, moveTo = to, promotion = pr, san = sn, movePiece = pc, moveFlags = fl \<rparr>"

text \<open>The legal moves of each position, all of them.\<close>

definition startMoves :: "moveRec list" where
  "startMoves =
     [mf ''b1'' ''c3'' [] ''Nc3'' ''n'' ''n'',
      mf ''b1'' ''a3'' [] ''Na3'' ''n'' ''n'',
      mf ''g1'' ''h3'' [] ''Nh3'' ''n'' ''n'',
      mf ''g1'' ''f3'' [] ''Nf3'' ''n'' ''n'',
      mf ''a2'' ''a3'' [] ''a3'' ''p'' ''n'',
      mf ''a2'' ''a4'' [] ''a4'' ''p'' ''b'',
      mf ''b2'' ''b3'' [] ''b3'' ''p'' ''n'',
      mf ''b2'' ''b4'' [] ''b4'' ''p'' ''b'',
      mf ''c2'' ''c3'' [] ''c3'' ''p'' ''n'',
      mf ''c2'' ''c4'' [] ''c4'' ''p'' ''b'',
      mf ''d2'' ''d3'' [] ''d3'' ''p'' ''n'',
      mf ''d2'' ''d4'' [] ''d4'' ''p'' ''b'',
      mf ''e2'' ''e3'' [] ''e3'' ''p'' ''n'',
      mf ''e2'' ''e4'' [] ''e4'' ''p'' ''b'',
      mf ''f2'' ''f3'' [] ''f3'' ''p'' ''n'',
      mf ''f2'' ''f4'' [] ''f4'' ''p'' ''b'',
      mf ''g2'' ''g3'' [] ''g3'' ''p'' ''n'',
      mf ''g2'' ''g4'' [] ''g4'' ''p'' ''b'',
      mf ''h2'' ''h3'' [] ''h3'' ''p'' ''n'',
      mf ''h2'' ''h4'' [] ''h4'' ''p'' ''b'']"

definition afterE3Moves :: "moveRec list" where
  "afterE3Moves =
     [mf ''a7'' ''a6'' [] ''a6'' ''p'' ''n'',
      mf ''a7'' ''a5'' [] ''a5'' ''p'' ''b'',
      mf ''b7'' ''b6'' [] ''b6'' ''p'' ''n'',
      mf ''b7'' ''b5'' [] ''b5'' ''p'' ''b'',
      mf ''c7'' ''c6'' [] ''c6'' ''p'' ''n'',
      mf ''c7'' ''c5'' [] ''c5'' ''p'' ''b'',
      mf ''d7'' ''d6'' [] ''d6'' ''p'' ''n'',
      mf ''d7'' ''d5'' [] ''d5'' ''p'' ''b'',
      mf ''e7'' ''e6'' [] ''e6'' ''p'' ''n'',
      mf ''e7'' ''e5'' [] ''e5'' ''p'' ''b'',
      mf ''f7'' ''f6'' [] ''f6'' ''p'' ''n'',
      mf ''f7'' ''f5'' [] ''f5'' ''p'' ''b'',
      mf ''g7'' ''g6'' [] ''g6'' ''p'' ''n'',
      mf ''g7'' ''g5'' [] ''g5'' ''p'' ''b'',
      mf ''h7'' ''h6'' [] ''h6'' ''p'' ''n'',
      mf ''h7'' ''h5'' [] ''h5'' ''p'' ''b'',
      mf ''b8'' ''c6'' [] ''Nc6'' ''n'' ''n'',
      mf ''b8'' ''a6'' [] ''Na6'' ''n'' ''n'',
      mf ''g8'' ''h6'' [] ''Nh6'' ''n'' ''n'',
      mf ''g8'' ''f6'' [] ''Nf6'' ''n'' ''n'']"

definition afterD6Moves :: "moveRec list" where
  "afterD6Moves =
     [mf ''b1'' ''c3'' [] ''Nc3'' ''n'' ''n'',
      mf ''b1'' ''a3'' [] ''Na3'' ''n'' ''n'',
      mf ''d1'' ''e2'' [] ''Qe2'' ''q'' ''n'',
      mf ''d1'' ''f3'' [] ''Qf3'' ''q'' ''n'',
      mf ''d1'' ''g4'' [] ''Qg4'' ''q'' ''n'',
      mf ''d1'' ''h5'' [] ''Qh5'' ''q'' ''n'',
      mf ''e1'' ''e2'' [] ''Ke2'' ''k'' ''n'',
      mf ''f1'' ''e2'' [] ''Be2'' ''b'' ''n'',
      mf ''f1'' ''d3'' [] ''Bd3'' ''b'' ''n'',
      mf ''f1'' ''c4'' [] ''Bc4'' ''b'' ''n'',
      mf ''f1'' ''b5'' [] ''Bb5+'' ''b'' ''n'',
      mf ''f1'' ''a6'' [] ''Ba6'' ''b'' ''n'',
      mf ''g1'' ''h3'' [] ''Nh3'' ''n'' ''n'',
      mf ''g1'' ''f3'' [] ''Nf3'' ''n'' ''n'',
      mf ''g1'' ''e2'' [] ''Ne2'' ''n'' ''n'',
      mf ''a2'' ''a3'' [] ''a3'' ''p'' ''n'',
      mf ''a2'' ''a4'' [] ''a4'' ''p'' ''b'',
      mf ''b2'' ''b3'' [] ''b3'' ''p'' ''n'',
      mf ''b2'' ''b4'' [] ''b4'' ''p'' ''b'',
      mf ''c2'' ''c3'' [] ''c3'' ''p'' ''n'',
      mf ''c2'' ''c4'' [] ''c4'' ''p'' ''b'',
      mf ''d2'' ''d3'' [] ''d3'' ''p'' ''n'',
      mf ''d2'' ''d4'' [] ''d4'' ''p'' ''b'',
      mf ''f2'' ''f3'' [] ''f3'' ''p'' ''n'',
      mf ''f2'' ''f4'' [] ''f4'' ''p'' ''b'',
      mf ''g2'' ''g3'' [] ''g3'' ''p'' ''n'',
      mf ''g2'' ''g4'' [] ''g4'' ''p'' ''b'',
      mf ''h2'' ''h3'' [] ''h3'' ''p'' ''n'',
      mf ''h2'' ''h4'' [] ''h4'' ''p'' ''b'',
      mf ''e3'' ''e4'' [] ''e4'' ''p'' ''n'']"

definition afterQg4Moves :: "moveRec list" where
  "afterQg4Moves =
     [mf ''d6'' ''d5'' [] ''d5'' ''p'' ''n'',
      mf ''a7'' ''a6'' [] ''a6'' ''p'' ''n'',
      mf ''a7'' ''a5'' [] ''a5'' ''p'' ''b'',
      mf ''b7'' ''b6'' [] ''b6'' ''p'' ''n'',
      mf ''b7'' ''b5'' [] ''b5'' ''p'' ''b'',
      mf ''c7'' ''c6'' [] ''c6'' ''p'' ''n'',
      mf ''c7'' ''c5'' [] ''c5'' ''p'' ''b'',
      mf ''e7'' ''e6'' [] ''e6'' ''p'' ''n'',
      mf ''e7'' ''e5'' [] ''e5'' ''p'' ''b'',
      mf ''f7'' ''f6'' [] ''f6'' ''p'' ''n'',
      mf ''f7'' ''f5'' [] ''f5'' ''p'' ''b'',
      mf ''g7'' ''g6'' [] ''g6'' ''p'' ''n'',
      mf ''g7'' ''g5'' [] ''g5'' ''p'' ''b'',
      mf ''h7'' ''h6'' [] ''h6'' ''p'' ''n'',
      mf ''h7'' ''h5'' [] ''h5'' ''p'' ''b'',
      mf ''b8'' ''c6'' [] ''Nc6'' ''n'' ''n'',
      mf ''b8'' ''d7'' [] ''Nd7'' ''n'' ''n'',
      mf ''b8'' ''a6'' [] ''Na6'' ''n'' ''n'',
      mf ''c8'' ''d7'' [] ''Bd7'' ''b'' ''n'',
      mf ''c8'' ''e6'' [] ''Be6'' ''b'' ''n'',
      mf ''c8'' ''f5'' [] ''Bf5'' ''b'' ''n'',
      mf ''c8'' ''g4'' [] ''Bxg4'' ''b'' ''c'',
      mf ''d8'' ''d7'' [] ''Qd7'' ''q'' ''n'',
      mf ''g8'' ''h6'' [] ''Nh6'' ''n'' ''n'',
      mf ''g8'' ''f6'' [] ''Nf6'' ''n'' ''n'']"

definition afterBxg4Moves :: "moveRec list" where
  "afterBxg4Moves =
     [mf ''b1'' ''c3'' [] ''Nc3'' ''n'' ''n'',
      mf ''b1'' ''a3'' [] ''Na3'' ''n'' ''n'',
      mf ''f1'' ''e2'' [] ''Be2'' ''b'' ''n'',
      mf ''f1'' ''d3'' [] ''Bd3'' ''b'' ''n'',
      mf ''f1'' ''c4'' [] ''Bc4'' ''b'' ''n'',
      mf ''f1'' ''b5'' [] ''Bb5+'' ''b'' ''n'',
      mf ''f1'' ''a6'' [] ''Ba6'' ''b'' ''n'',
      mf ''g1'' ''h3'' [] ''Nh3'' ''n'' ''n'',
      mf ''g1'' ''f3'' [] ''Nf3'' ''n'' ''n'',
      mf ''g1'' ''e2'' [] ''Ne2'' ''n'' ''n'',
      mf ''a2'' ''a3'' [] ''a3'' ''p'' ''n'',
      mf ''a2'' ''a4'' [] ''a4'' ''p'' ''b'',
      mf ''b2'' ''b3'' [] ''b3'' ''p'' ''n'',
      mf ''b2'' ''b4'' [] ''b4'' ''p'' ''b'',
      mf ''c2'' ''c3'' [] ''c3'' ''p'' ''n'',
      mf ''c2'' ''c4'' [] ''c4'' ''p'' ''b'',
      mf ''d2'' ''d3'' [] ''d3'' ''p'' ''n'',
      mf ''d2'' ''d4'' [] ''d4'' ''p'' ''b'',
      mf ''f2'' ''f3'' [] ''f3'' ''p'' ''n'',
      mf ''f2'' ''f4'' [] ''f4'' ''p'' ''b'',
      mf ''g2'' ''g3'' [] ''g3'' ''p'' ''n'',
      mf ''h2'' ''h3'' [] ''h3'' ''p'' ''n'',
      mf ''h2'' ''h4'' [] ''h4'' ''p'' ''b'',
      mf ''e3'' ''e4'' [] ''e4'' ''p'' ''n'']"

definition sacMoves :: "moveRec list" where
  "sacMoves =
     [mf ''b1'' ''c3'' [] ''Nc3'' ''n'' ''n'',
      mf ''b1'' ''a3'' [] ''Na3'' ''n'' ''n'',
      mf ''e1'' ''f1'' [] ''Kf1'' ''k'' ''n'',
      mf ''e1'' ''d1'' [] ''Kd1'' ''k'' ''n'',
      mf ''e1'' ''e2'' [] ''Ke2'' ''k'' ''n'',
      mf ''g1'' ''h3'' [] ''Nh3'' ''n'' ''n'',
      mf ''g1'' ''f3'' [] ''Nf3'' ''n'' ''n'',
      mf ''g1'' ''e2'' [] ''Ne2'' ''n'' ''n'',
      mf ''a2'' ''a3'' [] ''a3'' ''p'' ''n'',
      mf ''a2'' ''a4'' [] ''a4'' ''p'' ''b'',
      mf ''b2'' ''b3'' [] ''b3'' ''p'' ''n'',
      mf ''b2'' ''b4'' [] ''b4'' ''p'' ''b'',
      mf ''c2'' ''c3'' [] ''c3'' ''p'' ''n'',
      mf ''d2'' ''d3'' [] ''d3'' ''p'' ''n'',
      mf ''d2'' ''d4'' [] ''d4'' ''p'' ''b'',
      mf ''f2'' ''f3'' [] ''f3'' ''p'' ''n'',
      mf ''f2'' ''f4'' [] ''f4'' ''p'' ''b'',
      mf ''g2'' ''g3'' [] ''g3'' ''p'' ''n'',
      mf ''g2'' ''g4'' [] ''g4'' ''p'' ''b'',
      mf ''h2'' ''h3'' [] ''h3'' ''p'' ''n'',
      mf ''h2'' ''h4'' [] ''h4'' ''p'' ''b'',
      mf ''c4'' ''d5'' [] ''Bd5'' ''b'' ''n'',
      mf ''c4'' ''e6'' [] ''Be6'' ''b'' ''n'',
      mf ''c4'' ''f7'' [] ''Bxf7+'' ''b'' ''c'',
      mf ''c4'' ''d3'' [] ''Bd3'' ''b'' ''n'',
      mf ''c4'' ''e2'' [] ''Be2'' ''b'' ''n'',
      mf ''c4'' ''f1'' [] ''Bf1'' ''b'' ''n'',
      mf ''c4'' ''b5'' [] ''Bb5'' ''b'' ''n'',
      mf ''c4'' ''a6'' [] ''Ba6'' ''b'' ''n'',
      mf ''c4'' ''b3'' [] ''Bb3'' ''b'' ''n'',
      mf ''h5'' ''g5'' [] ''Qg5'' ''q'' ''n'',
      mf ''h5'' ''f5'' [] ''Qf5'' ''q'' ''n'',
      mf ''h5'' ''e5'' [] ''Qxe5+'' ''q'' ''c'',
      mf ''h5'' ''h6'' [] ''Qh6'' ''q'' ''n'',
      mf ''h5'' ''h7'' [] ''Qxh7'' ''q'' ''c'',
      mf ''h5'' ''h4'' [] ''Qh4'' ''q'' ''n'',
      mf ''h5'' ''h3'' [] ''Qh3'' ''q'' ''n'',
      mf ''h5'' ''g6'' [] ''Qg6'' ''q'' ''n'',
      mf ''h5'' ''f7'' [] ''Qxf7#'' ''q'' ''c'',
      mf ''h5'' ''g4'' [] ''Qg4'' ''q'' ''n'',
      mf ''h5'' ''f3'' [] ''Qf3'' ''q'' ''n'',
      mf ''h5'' ''e2'' [] ''Qe2'' ''q'' ''n'',
      mf ''h5'' ''d1'' [] ''Qd1'' ''q'' ''n'']"

definition matedMoves :: "moveRec list" where
  "matedMoves = []"

definition chessFacts :: "(string \<times> bool \<times> moveRec list) list" where
  "chessFacts =
     [(startFen, False, startMoves),
      (afterE3Fen, False, afterE3Moves),
      (afterD6Fen, False, afterD6Moves),
      (afterQg4Fen, False, afterQg4Moves),
      (afterBxg4Fen, False, afterBxg4Moves),
      (sacFen, False, sacMoves),
      (matedFen, True, matedMoves)]"

text \<open>Where the moves of the line \<^verbatim>\<open>1. e3 d6 2. Qg4 Bxg4\<close> lead.\<close>

definition chessSteps :: "((string \<times> string) \<times> string) list" where
  "chessSteps =
     [((startFen, ''e2e3''), afterE3Fen),
      ((afterE3Fen, ''d7d6''), afterD6Fen),
      ((afterD6Fen, ''d1g4''), afterQg4Fen),
      ((afterQg4Fen, ''c8g4''), afterBxg4Fen)]"

text \<open>
  The board of a FEN, from its first field: the rows from rank 8 down, a digit for that
  many empty squares, an upper-case letter for a white piece and a lower-case letter for
  a black one.
\<close>

definition fenSquares :: "char \<Rightarrow> (string \<times> string) option list" where
  "fenSquares c =
     (case map_of [(CHR ''1'', [None]),
                   (CHR ''2'', [None, None]),
                   (CHR ''3'', [None, None, None]),
                   (CHR ''4'', [None, None, None, None]),
                   (CHR ''5'', [None, None, None, None, None]),
                   (CHR ''6'', [None, None, None, None, None, None]),
                   (CHR ''7'', [None, None, None, None, None, None, None]),
                   (CHR ''8'', [None, None, None, None, None, None, None, None]),
                   (CHR ''P'', [Some (''w'', ''p'')]), (CHR ''N'', [Some (''w'', ''n'')]),
                   (CHR ''B'', [Some (''w'', ''b'')]), (CHR ''R'', [Some (''w'', ''r'')]),
                   (CHR ''Q'', [Some (''w'', ''q'')]), (CHR ''K'', [Some (''w'', ''k'')])] c of
        Some sqs \<Rightarrow> sqs
      | None \<Rightarrow> [Some (''b'', [c])])"

definition fenBoard :: "string \<Rightarrow> (string \<times> string) option list list" where
  "fenBoard fen =
     map (\<lambda>row. concat (map fenSquares row))
       (splitOn CHR ''/'' (takeWhile (\<lambda>c. c \<noteq> CHR '' '') fen))"

text \<open>
  The rules library of a table of positions and of a table of moves played. A position
  that is not in the table does not load. A SAN string names the legal move with the
  same SAN, check and annotation marks at the end set aside, and no move when there is
  none. A move that is not in the table of moves played leads to no position: its FEN
  is the empty string, which does not load.
\<close>

definition stripDecor :: "string \<Rightarrow> string" where
  "stripDecor s = rev (dropWhile isMark (rev s))"

definition libOf ::
    "(string \<times> bool \<times> moveRec list) list \<Rightarrow> ((string \<times> string) \<times> string) list \<Rightarrow> chessLib" where
  "libOf tab steps =
     \<lparr> loadFen = (\<lambda>fen. case map_of tab fen of
                      None \<Rightarrow> None
                    | Some (chk, ms) \<Rightarrow> Some \<lparr> inCheck = chk, moves = ms \<rparr>),
       board = fenBoard,
       moveSan = (\<lambda>fen sn. case map_of tab fen of
                      None \<Rightarrow> None
                    | Some (chk, ms) \<Rightarrow> find (\<lambda>m. stripDecor (san m) = stripDecor sn) ms),
       fenAfter = (\<lambda>fen m. case map_of steps (fen, moveFrom m @ moveTo m @ promotion m) of
                      None \<Rightarrow> []
                    | Some f \<Rightarrow> f) \<rparr>"

definition exampleLib :: chessLib where
  "exampleLib = libOf chessFacts chessSteps"

text \<open>
  An engine whose state is the last command it received and that answers every search
  with the same top move, with a score that depends on the search asked for: a timed
  search, the depth 14 of the stable pass, the depth 18 of the verification pass.
\<close>

definition fastEval :: evalObj where
  "fastEval = \<lparr> evScore = Cp 10, bestmoveUci = Some ''h5f3'',
                 multipv = [\<lparr> rank = 1, uci = ''h5f3'', pvScore = Cp 10 \<rparr>] \<rparr>"

definition stableEval :: evalObj where
  "stableEval = \<lparr> evScore = Cp 20, bestmoveUci = Some ''h5f3'',
                   multipv = [\<lparr> rank = 1, uci = ''h5f3'', pvScore = Cp 20 \<rparr>] \<rparr>"

definition deepEval :: evalObj where
  "deepEval = \<lparr> evScore = Cp 35, bestmoveUci = Some ''h5f3'',
                 multipv = [\<lparr> rank = 1, uci = ''h5f3'', pvScore = Cp 35 \<rparr>] \<rparr>"

definition exampleEngine :: "string engineModel" where
  "exampleEngine =
     \<lparr> creatable = (\<lambda>url. True),
       boot = (\<lambda>url. []),
       onCommand = (\<lambda>st cmd. cmd),
       resolved = (\<lambda>st. if st = ''go depth 18'' then Some deepEval
                          else if st = ''go depth 14'' then Some stableEval
                          else if take 3 st = ''go '' then Some fastEval
                          else None) \<rparr>"

text \<open>The options object \<^verbatim>\<open>{ depth: 14, multiPV: 5 }\<close> of the stable pass.\<close>

definition stableOpts :: optsArg where
  "stableOpts = OptsObject \<lparr> optDepth = Some 14, optMovetime = None, optMultiPV = Some 5 \<rparr>"








text \<open>A second candidate build, for a list of two candidates.\<close>

definition secondUrl :: string where
  "secondUrl = ''/stockfish/stockfish-17.1-lite.js''"

text \<open>
  Two evaluations in which the mover is being mated, in five before the move and in
  three after it, and evaluations that carry a score only.
\<close>

definition matedInFive :: evalObj where
  "matedInFive = \<lparr> evScore = Mate (- 5), bestmoveUci = Some ''h5f3'',
                    multipv = [\<lparr> rank = 1, uci = ''h5f3'', pvScore = Mate (- 5) \<rparr>] \<rparr>"

definition matedInThree :: evalObj where
  "matedInThree = \<lparr> evScore = Mate 3, bestmoveUci = None, multipv = [] \<rparr>"

definition lostEval :: evalObj where
  "lostEval = \<lparr> evScore = Cp 300, bestmoveUci = None, multipv = [] \<rparr>"

definition cpEval :: "int \<Rightarrow> evalObj" where
  "cpEval c = \<lparr> evScore = Cp c, bestmoveUci = None, multipv = [] \<rparr>"

section \<open>Properties of the move classifier\<close>

lemma orZero_simps [simp]: "orZero None = 0" "orZero (Some v) = v"
  by (simp_all add: orZero_def)

lemma notNullAnd_simps [simp]: "notNullAnd None p = False" "notNullAnd (Some v) p = p v"
  by (simp_all add: notNullAnd_def)

text \<open>
  Claim C9, as stated, fails: \<^verbatim>\<open>mateToScore\<close> caps the distance at 99, so mate in 99
  and mate in 100 get the same score 1000 and the map is not strictly order-preserving.
\<close>

theorem mateToScore_order_counterexample:
  "(0::int) < 99 \<and> (99::int) < 100 \<and> \<not> (mateToScore 100 < mateToScore 99)"
  by (simp add: mateToScore_def)

text \<open>
  Claim C9, amended: over mate distances up to 99 the map is strictly order-preserving on
  each sign (for \<open>0 < m1 < m2 \<le> 99\<close> the score of the closer mate \<open>m1\<close> is strictly
  greater, and for \<open>- 99 \<le> m2 < m1 < 0\<close> the closer mate \<open>m1\<close> is strictly more
  negative); every distance from 99 on maps to the same score, 1000 or -1000.
\<close>

theorem mateToScore_strict_upto_99:
  "(0 < m1 \<and> m1 < m2 \<and> m2 \<le> 99 \<longrightarrow> 0 < mateToScore m2 \<and> mateToScore m2 < mateToScore m1) \<and>
   (m2 < m1 \<and> m1 < 0 \<and> - 99 \<le> m2 \<longrightarrow> mateToScore m1 < mateToScore m2 \<and> mateToScore m2 < 0) \<and>
   (99 \<le> m1 \<longrightarrow> mateToScore m1 = 1000) \<and> (m1 \<le> - 99 \<longrightarrow> mateToScore m1 = - 1000)"
  by (auto simp add: mateToScore_def Let_def min_def)

theorem mateToScore_strict_upto_99_witness:
  "(0::int) < 2 \<and> (2::int) < 5 \<and> (5::int) \<le> 99 \<and> mateToScore 5 < mateToScore 2 \<and>
   (- 5::int) < - 2 \<and> (- 2::int) < 0 \<and> (- 99::int) \<le> - 5 \<and> mateToScore (- 2) < mateToScore (- 5)
   \<and> mateToScore 2 = 98000 \<and> mateToScore (- 5) = - 95000"
  using mateToScore_strict_upto_99 [of 2 5] mateToScore_strict_upto_99 [of "- 2" "- 5"]
  by (simp add: mateToScore_def)

text \<open>
  Claim C10: when no mate-distance delta applies and the played move scores more than 10
  centipawns above the engine's top line (\<open>loss < - 10\<close>), \<^verbatim>\<open>classifyMoveByDelta\<close>
  returns \<open>Best\<close>, whatever the swing between the two scores.
\<close>

theorem classify_better_than_top_is_best:
  assumes "deltaMateForMover fl = None"
    and "orZero bestCp - orZero playedCp < - 10"
  shows "classifyMoveByDelta bestCp playedCp fl = Best"
  using assms by (simp add: classifyMoveByDelta_def Let_def)

theorem classify_better_than_top_is_best_witness:
  "deltaMateForMover noFlags = None \<and>
   orZero (Some (- 400)) - orZero (Some 100) < - 10 \<and>
   classifyMoveByDelta (Some (- 400)) (Some 100) noFlags = Best"
  using classify_better_than_top_is_best [of noFlags "Some (- 400)" "Some 100"]
  by (simp add: noFlags_def)

text \<open>
  The tag that \<^verbatim>\<open>annotations\<close> gets from the classifier is never \<open>Miss\<close>: a best line
  that is a mate for the mover scores at least 1000, and from a best score of 300 or more
  a played score of 50 or less is a loss above 200.
\<close>

lemma bestIsMate_bestCpOf:
  "bestIsMate (annotationFlags best after) \<Longrightarrow> 1000 \<le> bestCpOf best"
  by (cases "evScore best")
     (auto simp add: annotationFlags_def bestCpOf_def mateToScore_def Let_def min_def
        split: if_splits)

lemma classify_Miss_needs_small_best:
  "classifyMoveByDelta (Some b) (Some p) fl = Miss \<Longrightarrow> b < 300"
  by (cases "deltaMateForMover fl")
     (auto simp add: classifyMoveByDelta_def Let_def split: if_splits)

lemma annotationTag_never_Miss: "annotationTag best after \<noteq> Miss"
proof
  assume m: "annotationTag best after = Miss"
  then have small: "bestCpOf best < 300"
    unfolding annotationTag_def by (rule classify_Miss_needs_small_best)
  have "bestIsMate (annotationFlags best after)"
    using m small
    by (cases "deltaMateForMover (annotationFlags best after)")
       (auto simp add: annotationTag_def classifyMoveByDelta_def Let_def split: if_splits)
  then show False using bestIsMate_bestCpOf small by fastforce
qed

text \<open>
  With no mate-distance delta, a loss that is not negative and a mate flag that is set
  only on a best score of at least 300, the classifier follows the loss thresholds,
  except at a best score of 300 with a played score of 0, where the swing override
  returns \<open>Blunder\<close>.
\<close>

lemma classify_no_delta:
  assumes "deltaMateForMover fl = None" and "0 \<le> b - p" and "bestIsMate fl \<longrightarrow> 300 \<le> b"
  shows "classifyMoveByDelta (Some b) (Some p) fl =
     (if b = 300 \<and> p = 0 then Blunder
      else if b - p \<le> 10 then Best
      else if b - p \<le> 20 then Excellent
      else if b - p \<le> 50 then Good
      else if b - p \<le> 150 then Inaccuracy
      else if b - p \<le> 300 then Mistake
      else Blunder)"
  using assms by (auto simp add: classifyMoveByDelta_def Let_def)

lemma annotationFlags_delta [simp]:
  "deltaMateForMover (annotationFlags best after) = deltaMateOf best after"
  by (simp add: annotationFlags_def)

text \<open>
  Claim C5, as stated, fails: with a best score of 300 and a played score of 0 the two
  evaluations assert no mate, the loss is 300, in the band the claim gives to
  \<open>Mistake\<close>, and the swing override makes the tag \<open>Blunder\<close>.
\<close>

theorem classify_thresholds_counterexample:
  "deltaMateOf (cpEval 300) (cpEval 0) = None \<and>
   bestCpOf (cpEval 300) - playedCpOf (cpEval 0) = 300 \<and>
   annotationTag (cpEval 300) (cpEval 0) = Blunder"
  by (simp add: annotationTag_def annotationFlags_def deltaMateOf_def bestMateForMover_def
      playedMateForMover_def bestCpOf_def playedCpOf_def cpEval_def classifyMoveByDelta_def
      Let_def)

text \<open>
  Claim C5, amended: for every move whose evaluations before and after do not both
  assert a forced mate for the mover, with a loss \<open>bestCp - playedCp\<close> that is not
  negative, the classifier returns \<open>Best\<close> for a loss up to 10, \<open>Excellent\<close> up to 20,
  \<open>Good\<close> up to 50, \<open>Inaccuracy\<close> up to 150, \<open>Mistake\<close> up to 300 and \<open>Blunder\<close>
  above, except for a best score of exactly 300 with a played score of exactly 0, where
  it returns \<open>Blunder\<close>.
\<close>

theorem classify_thresholds:
  assumes "deltaMateOf best after = None"
    and "loss = bestCpOf best - playedCpOf after" and "0 \<le> loss"
  shows "annotationTag best after =
     (if bestCpOf best = 300 \<and> playedCpOf after = 0 then Blunder
      else if loss \<le> 10 then Best
      else if loss \<le> 20 then Excellent
      else if loss \<le> 50 then Good
      else if loss \<le> 150 then Inaccuracy
      else if loss \<le> 300 then Mistake
      else Blunder)"
proof -
  have flag: "bestIsMate (annotationFlags best after) \<longrightarrow> 300 \<le> bestCpOf best"
    using bestIsMate_bestCpOf [of best after] by auto
  have "deltaMateForMover (annotationFlags best after) = None"
    using assms(1) by simp
  from classify_no_delta [OF this _ flag, of "playedCpOf after"] assms(2,3)
  show ?thesis by (simp add: annotationTag_def)
qed

theorem classify_thresholds_witness:
  "deltaMateOf (cpEval 120) (cpEval 60) = None \<and>
   (180::int) = bestCpOf (cpEval 120) - playedCpOf (cpEval 60) \<and> (0::int) \<le> 180 \<and>
   annotationTag (cpEval 120) (cpEval 60) = Mistake \<and>
   deltaMateOf (cpEval 400) (cpEval 0) = None \<and>
   (400::int) = bestCpOf (cpEval 400) - playedCpOf (cpEval 0) \<and>
   annotationTag (cpEval 400) (cpEval 0) = Blunder \<and>
   annotationTag (cpEval 35) (cpEval (- 20)) = Excellent"
proof -
  have d: "deltaMateOf (cpEval b) (cpEval p) = None" for b p
    by (simp add: deltaMateOf_def bestMateForMover_def playedMateForMover_def cpEval_def)
  have l: "bestCpOf (cpEval b) - playedCpOf (cpEval p) = b + p" for b p
    by (simp add: bestCpOf_def playedCpOf_def cpEval_def)
  have v: "bestCpOf (cpEval b) = b" "playedCpOf (cpEval p) = - p" for b p
    by (simp_all add: bestCpOf_def playedCpOf_def cpEval_def)
  show ?thesis
    using classify_thresholds [OF d, of 180 120 60] classify_thresholds [OF d, of 400 400 0]
      classify_thresholds [OF d, of 15 35 "- 20"] d l v
    by simp
qed

text \<open>
  Claim C7 on the code: the evaluation before the move gives the mover 300 centipawns,
  the move leaves 50, the loss is 250 and the move does not qualify as \<open>Blunder\<close>; the
  tag is \<open>Mistake\<close>, not \<open>Miss\<close>. Under the guard \<open>loss \<le> 200\<close> of the miss branch no
  move is ever tagged \<open>Miss\<close> by \<^verbatim>\<open>annotations\<close>, as the lemma above says.
\<close>

theorem squandered_advantage_not_miss:
  "300 \<le> bestCpOf (cpEval 300) \<and> playedCpOf (cpEval (- 50)) \<le> 50 \<and>
   bestCpOf (cpEval 300) - playedCpOf (cpEval (- 50)) = 250 \<and>
   0 < playedCpOf (cpEval (- 50)) \<and>
   deltaMateOf (cpEval 300) (cpEval (- 50)) = None \<and>
   annotationTag (cpEval 300) (cpEval (- 50)) = Mistake"
  by (simp add: annotationTag_def annotationFlags_def deltaMateOf_def bestMateForMover_def
      playedMateForMover_def bestCpOf_def playedCpOf_def cpEval_def classifyMoveByDelta_def
      Let_def)

text \<open>
  Claim C6: when the evaluation before the move is a mate for the mover (\<open>Mate m\<close> with
  \<open>0 < m\<close>) and the evaluation after it is still one (\<open>Mate a\<close> with \<open>a \<le> 0\<close>, seen from
  the opponent), the tag that \<^verbatim>\<open>annotations\<close> gets from the classifier depends only on
  the change \<open>d\<close> in mate distance: \<open>Best\<close> for \<open>d \<le> 0\<close>, \<open>Excellent\<close> for 1, \<open>Good\<close>
  for 2 and 3, \<open>Inaccuracy\<close> for 4 to 6, \<open>Mistake\<close> above, and never \<open>Blunder\<close>.
\<close>

theorem annotationTag_mate_delta:
  assumes "evScore best = Mate m" and "0 < m"
    and "evScore after = Mate a" and "a \<le> 0"
    and "d = \<bar>a\<bar> - \<bar>m\<bar>"
  shows "annotationTag best after =
      (if d \<le> 0 then Best
       else if d = 1 then Excellent
       else if 2 \<le> d \<and> d \<le> 3 then Good
       else if 4 \<le> d \<and> d \<le> 6 then Inaccuracy
       else Mistake) \<and> annotationTag best after \<noteq> Blunder"
  using assms
  by (auto simp add: annotationTag_def annotationFlags_def deltaMateOf_def
      bestMateForMover_def playedMateForMover_def classifyMoveByDelta_def Let_def)

theorem annotationTag_mate_delta_witness:
  "evScore \<lparr> evScore = Mate 2, bestmoveUci = None, multipv = [] \<rparr> = Mate 2 \<and> (0::int) < 2 \<and>
   evScore \<lparr> evScore = Mate (- 5), bestmoveUci = None, multipv = [] \<rparr> = Mate (- 5) \<and>
   (- 5::int) \<le> 0 \<and> (3::int) = \<bar>- 5\<bar> - \<bar>2\<bar> \<and>
   annotationTag \<lparr> evScore = Mate 2, bestmoveUci = None, multipv = [] \<rparr>
     \<lparr> evScore = Mate (- 5), bestmoveUci = None, multipv = [] \<rparr> = Good"
  using annotationTag_mate_delta
    [of "\<lparr> evScore = Mate 2, bestmoveUci = None, multipv = [] \<rparr>" 2
        "\<lparr> evScore = Mate (- 5), bestmoveUci = None, multipv = [] \<rparr>" "- 5" 3]
  by simp

section \<open>Properties of the evaluation channel\<close>

lemma postMessage_simps [simp]:
  "posted (postMessage E msg a) = posted a @ [msg]"
  "engine (postMessage E msg a) = onCommand E (engine a) msg"
  "evalCacheRef (postMessage E msg a) = evalCacheRef a"
  "workerRef (postMessage E msg a) = workerRef a"
  "sans (postMessage E msg a) = sans a"
  "candidateIndex (postMessage E msg a) = candidateIndex a"
  "created (postMessage E msg a) = created a"
  "terminated (postMessage E msg a) = terminated a"
  "readyCalls (postMessage E msg a) = readyCalls a"
  "engineReady (postMessage E msg a) = engineReady a"
  "timeoutToken (postMessage E msg a) = timeoutToken a"
  "loadingTimeout (postMessage E msg a) = loadingTimeout a"
  by (simp_all add: postMessage_def)

lemma showNat_small [simp]:
  "showNat 3 = ''3''" "showNat 5 = ''5''" "showNat 12 = ''12''" "showNat 14 = ''14''"
  "showNat 18 = ''18''" "showNat 80 = ''80''"
  by (simp_all add: showNat.simps digitChar_def)

text \<open>What the example library says of the example positions.\<close>

lemmas fen_defs = startFen_def afterE3Fen_def afterD6Fen_def afterQg4Fen_def
  afterBxg4Fen_def sacFen_def matedFen_def

lemma lib_load:
  "loadFen exampleLib startFen = Some \<lparr> inCheck = False, moves = startMoves \<rparr>"
  "loadFen exampleLib afterE3Fen = Some \<lparr> inCheck = False, moves = afterE3Moves \<rparr>"
  "loadFen exampleLib afterD6Fen = Some \<lparr> inCheck = False, moves = afterD6Moves \<rparr>"
  "loadFen exampleLib afterQg4Fen = Some \<lparr> inCheck = False, moves = afterQg4Moves \<rparr>"
  "loadFen exampleLib afterBxg4Fen = Some \<lparr> inCheck = False, moves = afterBxg4Moves \<rparr>"
  "loadFen exampleLib sacFen = Some \<lparr> inCheck = False, moves = sacMoves \<rparr>"
  "loadFen exampleLib matedFen = Some \<lparr> inCheck = True, moves = [] \<rparr>"
  by (simp_all add: exampleLib_def libOf_def chessFacts_def fen_defs matedMoves_def)

lemma lib_terminal:
  "getTerminalEval exampleLib startFen = None"
  "getTerminalEval exampleLib afterE3Fen = None"
  "getTerminalEval exampleLib afterD6Fen = None"
  "getTerminalEval exampleLib afterQg4Fen = None"
  "getTerminalEval exampleLib sacFen = None"
  "getTerminalEval exampleLib matedFen = Some (Mate 0)"
  by (simp_all add: getTerminalEval_def lib_load isCheckmate_def isStalemate_def
      startMoves_def afterE3Moves_def afterD6Moves_def afterQg4Moves_def sacMoves_def)

lemma lib_san:
  "uciToSan exampleLib startFen ''e2e4'' = Some ''e4''"
  "uciToSan exampleLib afterE3Fen ''e7e5'' = Some ''e5''"
  "uciToSan exampleLib afterD6Fen ''d2d4'' = Some ''d4''"
  "uciToSan exampleLib afterD6Fen ''d1g4'' = Some ''Qg4''"
  "uciToSan exampleLib afterQg4Fen ''c8g4'' = Some ''Bxg4''"
  "uciToSan exampleLib sacFen ''h5f3'' = Some ''Qf3''"
  by (simp_all add: uciToSan_def lib_load mf_def
      startMoves_def afterE3Moves_def afterD6Moves_def afterQg4Moves_def sacMoves_def)










text \<open>
  Claim C8: in a session that has a worker, for a position whose side to move has no
  legal reply, \<^verbatim>\<open>analyzeFenOnce\<close> resolves at once, posting no command to the engine and
  leaving the engine as it was: to a mate score of distance 0 when the side to move is in
  check, to a centipawn score of 0 when it is not.
\<close>

theorem terminal_short_circuit:
  assumes "workerRef a = Some w" and "loadFen lib fen = Some g" and "moves g = []"
  shows "fst (analyzeFenOnce lib E fen arg multiPVArg a) =
           Some \<lparr> evScore = (if inCheck g then Mate 0 else Cp 0),
                  bestmoveUci = None, multipv = [] \<rparr>
         \<and> posted (snd (analyzeFenOnce lib E fen arg multiPVArg a)) = posted a
         \<and> engine (snd (analyzeFenOnce lib E fen arg multiPVArg a)) = engine a"
  using assms
  by (simp add: analyzeFenOnce_def getTerminalEval_def isCheckmate_def isStalemate_def
      Let_def split: prod.splits)

theorem terminal_short_circuit_witness:
  "workerRef (readyApp []) = Some defaultUrl \<and>
   loadFen exampleLib matedFen = Some \<lparr> inCheck = True, moves = [] \<rparr> \<and>
   moves \<lparr> inCheck = True, moves = [] \<rparr> = [] \<and>
   fst (analyzeFenOnce exampleLib exampleEngine matedFen stableOpts None (readyApp [])) =
     Some \<lparr> evScore = Mate 0, bestmoveUci = None, multipv = [] \<rparr> \<and>
   posted (snd (analyzeFenOnce exampleLib exampleEngine matedFen stableOpts None (readyApp []))) = []"
  using terminal_short_circuit [of "readyApp []" defaultUrl exampleLib matedFen
      "\<lparr> inCheck = True, moves = [] \<rparr>" exampleEngine stableOpts None]
  by (simp add: readyApp_def initialApp_def lib_load)

text \<open>
  On the engine path \<^verbatim>\<open>analyzeFenOnce\<close> posts its three commands and leaves the cache
  as it was.
\<close>

lemma analyzeFenOnce_engine_path:
  assumes "workerRef a = Some w" and "getTerminalEval lib fen = None"
    and "searchParams arg multiPVArg = (mt, dp, mpv)"
    and "evalCacheRef a (cacheKey fen mt dp mpv) = None"
  shows "evalCacheRef (snd (analyzeFenOnce lib E fen arg multiPVArg a)) = evalCacheRef a"
    and "posted (snd (analyzeFenOnce lib E fen arg multiPVArg a)) =
           posted a @ [''setoption name MultiPV value '' @ showInt mpv, ''position fen '' @ fen,
              (case mt of Some t \<Rightarrow> ''go movetime '' @ showInt t
                        | None \<Rightarrow> ''go depth '' @ showInt dp)]"
  using assms
  by (simp_all add: analyzeFenOnce_def Let_def split: option.splits)

text \<open>
  Claim C1 on the code: two calls of \<^verbatim>\<open>analyzeFenOnce\<close> with the same position and the
  same options \<^verbatim>\<open>{ depth: 14, multiPV: 5 }\<close>, on a position that is not terminal. The
  first call resolves to the engine's answer and stores nothing under its key; the second
  call posts the same three commands to the engine again.
\<close>

theorem repeated_request_reaches_engine:
  "(case analyzeFenOnce exampleLib exampleEngine sacFen stableOpts None (readyApp []) of
      (r1, a1) \<Rightarrow>
        (case analyzeFenOnce exampleLib exampleEngine sacFen stableOpts None a1 of
           (r2, a2) \<Rightarrow>
             r1 = Some stableEval \<and> evalCacheRef a1 (cacheKey sacFen None 14 5) = None \<and>
             posted a1 = [''setoption name MultiPV value 5'', ''position fen '' @ sacFen,
                          ''go depth 14''] \<and>
             posted a2 = posted a1 @ posted a1))"
  by (simp add: analyzeFenOnce_def lib_terminal exampleEngine_def stableOpts_def
      searchParams_def readyApp_def initialApp_def postMessage_def Let_def showInt_def
      stableEval_def cacheKey_def)

section \<open>Properties of the engine session\<close>

text \<open>
  Claim C3, as stated, fails, on the candidate list of the source: after the start-up
  and a firing watchdog, with no readiness signal in between,
  \<^verbatim>\<open>setEngineReady(false)\<close> has been called while the session has not advanced: the
  candidate index is still inside the list, the worker of the candidate has not been
  terminated, and the failure is not final, since a readiness line of that worker
  afterwards makes the session ready.
\<close>

theorem watchdog_counterexample:
  "(let a = run exampleEngine candidates [WatchdogFires]
              (startEngine exampleEngine candidates (initialApp []))
    in readyCalls a = [False] \<and> candidateIndex a = 0 \<and> candidateIndex a < length candidates \<and>
       workerRef a = Some defaultUrl \<and> created a = candidates \<and> terminated a = [] \<and>
       engineReady (run exampleEngine candidates [Line ''readyok''] a))"
  by (simp add: startEngine_def createStockfishWorker_def setupWorker_def onEvent_def
      watchdog_def setEngineReady_def clearTimeout_def initialApp_def exampleEngine_def
      candidates_def defaultUrl_def Let_def postMessage_def signalsReady_def)

text \<open>
  Claim C3, amended: when the watchdog of the current attempt fires, the session calls
  \<^verbatim>\<open>setEngineReady(false)\<close> at once and stays on its candidate: the candidate index
  does not advance and the worker is not terminated, so that a later readiness line of
  that worker still makes the session ready. The session advances, by one candidate and
  after terminating the current worker, exactly on an error event of the worker and on an
  error message object, and at start-up exactly when the first worker cannot be created.
  Where it advances, the candidate at the next index becomes the current worker and
  nothing is reported when there is such a candidate and its worker can be created;
  otherwise \<^verbatim>\<open>setEngineReady(false)\<close> is called.
\<close>

theorem session_advances_on_errors_only:
  "candidateIndex (onEvent E cands ev a) =
     (if advancing ev then candidateIndex a + 1 else candidateIndex a) \<and>
   terminated (onEvent E cands ev a) =
     (if advancing ev
      then (case workerRef a of None \<Rightarrow> terminated a | Some w \<Rightarrow> terminated a @ [w])
      else terminated a) \<and>
   (advancing ev \<longrightarrow> onEvent E cands ev a = snd (tryNextCandidate E cands a)) \<and>
   candidateIndex (startEngine E cands a) =
     (if creatable E (case cands of [] \<Rightarrow> defaultUrl | c # cs \<Rightarrow> c) then 0 else 1) \<and>
   (loadingTimeout a = Some (timeoutToken a) \<longrightarrow>
      onEvent E cands WatchdogFires a = setEngineReady False (a\<lparr> loadingTimeout := None \<rparr>)) \<and>
   (signalsReady l \<longrightarrow>
      engineReady (onEvent E cands (Line l) (onEvent E cands WatchdogFires a))) \<and>
   fst (tryNextCandidate E cands a) =
     (candidateIndex a + 1 < length cands \<and> creatable E (cands ! (candidateIndex a + 1))) \<and>
   readyCalls (snd (tryNextCandidate E cands a)) =
     (if fst (tryNextCandidate E cands a) then readyCalls a else readyCalls a @ [False]) \<and>
   workerRef (snd (tryNextCandidate E cands a)) =
     (if fst (tryNextCandidate E cands a) then Some (cands ! (candidateIndex a + 1))
      else workerRef a)"
proof -
  have idx: "candidateIndex (snd (tryNextCandidate E cands a)) = candidateIndex a + 1" for a :: "'a app"
    by (simp add: tryNextCandidate_def createStockfishWorker_def setupWorker_def
        setEngineReady_def clearTimeout_def Let_def split: option.splits)
  have trm: "terminated (snd (tryNextCandidate E cands a)) =
      (case workerRef a of None \<Rightarrow> terminated a | Some w \<Rightarrow> terminated a @ [w])" for a :: "'a app"
    by (simp add: tryNextCandidate_def createStockfishWorker_def setupWorker_def
        setEngineReady_def clearTimeout_def Let_def split: option.splits)
  have ev1: "candidateIndex (onEvent E cands ev a) =
     (if advancing ev then candidateIndex a + 1 else candidateIndex a)"
    by (cases ev)
       (simp_all add: onEvent_def advancing_def idx watchdog_def setEngineReady_def
          clearTimeout_def Let_def split: option.splits)
  have ev2: "terminated (onEvent E cands ev a) =
     (if advancing ev
      then (case workerRef a of None \<Rightarrow> terminated a | Some w \<Rightarrow> terminated a @ [w])
      else terminated a)"
    by (cases ev)
       (simp_all add: onEvent_def advancing_def trm watchdog_def setEngineReady_def
          clearTimeout_def Let_def split: option.splits)
  have ev3: "advancing ev \<longrightarrow> onEvent E cands ev a = snd (tryNextCandidate E cands a)"
    by (cases ev) (simp_all add: onEvent_def advancing_def)
  have st: "candidateIndex (startEngine E cands a) =
     (if creatable E (case cands of [] \<Rightarrow> defaultUrl | c # cs \<Rightarrow> c) then 0 else 1)"
    by (simp add: startEngine_def createStockfishWorker_def setupWorker_def clearTimeout_def
        idx Let_def)
  have wd: "loadingTimeout a = Some (timeoutToken a) \<longrightarrow>
      onEvent E cands WatchdogFires a = setEngineReady False (a\<lparr> loadingTimeout := None \<rparr>)"
    by (simp add: onEvent_def watchdog_def)
  have late: "signalsReady l \<longrightarrow>
      engineReady (onEvent E cands (Line l) (onEvent E cands WatchdogFires a))"
    by (simp add: onEvent_def setEngineReady_def)
  have t1: "fst (tryNextCandidate E cands a) =
     (candidateIndex a + 1 < length cands \<and> creatable E (cands ! (candidateIndex a + 1)))"
    by (cases "workerRef a")
       (auto simp add: tryNextCandidate_def createStockfishWorker_def clearTimeout_def Let_def)
  have t2: "readyCalls (snd (tryNextCandidate E cands a)) =
     (if fst (tryNextCandidate E cands a) then readyCalls a else readyCalls a @ [False])"
    by (cases "workerRef a")
       (simp_all add: tryNextCandidate_def createStockfishWorker_def setupWorker_def
          setEngineReady_def clearTimeout_def Let_def)
  have t3: "workerRef (snd (tryNextCandidate E cands a)) =
     (if fst (tryNextCandidate E cands a) then Some (cands ! (candidateIndex a + 1))
      else workerRef a)"
    by (simp add: tryNextCandidate_def createStockfishWorker_def setupWorker_def
        setEngineReady_def clearTimeout_def Let_def split: option.splits)
  show ?thesis using ev1 ev2 ev3 st wd late t1 t2 t3 by blast
qed

theorem session_advances_on_errors_only_witness:
  "(let a = startEngine exampleEngine candidates (initialApp [])
    in loadingTimeout a = Some (timeoutToken a) \<and> signalsReady ''readyok'' \<and>
       advancing ErrorEvent \<and> \<not> advancing WatchdogFires \<and>
       candidateIndex a = 0 \<and>
       readyCalls (onEvent exampleEngine candidates WatchdogFires a) = [False] \<and>
       candidateIndex (onEvent exampleEngine candidates WatchdogFires a) = 0 \<and>
       terminated (onEvent exampleEngine candidates WatchdogFires a) = [] \<and>
       engineReady (onEvent exampleEngine candidates (Line ''readyok'')
                      (onEvent exampleEngine candidates WatchdogFires a)) \<and>
       candidateIndex (onEvent exampleEngine candidates ErrorEvent a) = 1 \<and>
       terminated (onEvent exampleEngine candidates ErrorEvent a) = candidates \<and>
       readyCalls (onEvent exampleEngine candidates ErrorEvent a) = [False]) \<and>
   (let b = startEngine exampleEngine [defaultUrl, secondUrl] (initialApp [])
    in advancing (Object ''error'' None) \<and>
       workerRef (onEvent exampleEngine [defaultUrl, secondUrl] (Object ''error'' None) b)
         = Some secondUrl \<and>
       readyCalls (onEvent exampleEngine [defaultUrl, secondUrl] (Object ''error'' None) b) = [])"
proof -
  let ?a = "startEngine exampleEngine candidates (initialApp [])"
  let ?cs = "[defaultUrl, secondUrl]"
  let ?b = "startEngine exampleEngine ?cs (initialApp [])"
  have a: "loadingTimeout ?a = Some (timeoutToken ?a)" "candidateIndex ?a = 0"
    "readyCalls ?a = []" "terminated ?a = []" "workerRef ?a = Some defaultUrl"
    "length candidates = 1" "candidates = [defaultUrl]"
    by (simp_all add: startEngine_def createStockfishWorker_def setupWorker_def
        clearTimeout_def initialApp_def exampleEngine_def Let_def candidates_def
        defaultUrl_def)
  have b: "candidateIndex ?b = 0" "readyCalls ?b = []" "creatable exampleEngine secondUrl"
    by (simp_all add: startEngine_def createStockfishWorker_def setupWorker_def
        clearTimeout_def initialApp_def exampleEngine_def Let_def)
  have s: "signalsReady ''readyok''" "advancing ErrorEvent" "\<not> advancing WatchdogFires"
    "advancing (Object ''error'' None)"
    by (simp_all add: signalsReady_def advancing_def)
  note W = session_advances_on_errors_only [of exampleEngine candidates WatchdogFires ?a
      "''readyok''"]
  note R = session_advances_on_errors_only [of exampleEngine candidates ErrorEvent ?a
      "''readyok''"]
  note O = session_advances_on_errors_only [of exampleEngine ?cs "Object ''error'' None" ?b
      "''readyok''"]
  have w1: "candidateIndex (onEvent exampleEngine candidates WatchdogFires ?a) = 0"
    using W [THEN conjunct1] a(2) s(3) by simp
  have w2: "terminated (onEvent exampleEngine candidates WatchdogFires ?a) = []"
    using W [THEN conjunct2, THEN conjunct1] a(4) s(3) by simp
  have w5: "onEvent exampleEngine candidates WatchdogFires ?a =
      setEngineReady False (?a\<lparr> loadingTimeout := None \<rparr>)"
    using W [THEN conjunct2, THEN conjunct2, THEN conjunct2, THEN conjunct2, THEN conjunct1]
      a(1) by blast
  have w5': "readyCalls (onEvent exampleEngine candidates WatchdogFires ?a) = [False]"
    unfolding w5 using a(3) by (simp add: setEngineReady_def)
  have w6: "engineReady (onEvent exampleEngine candidates (Line ''readyok'')
                      (onEvent exampleEngine candidates WatchdogFires ?a))"
    using W [THEN conjunct2, THEN conjunct2, THEN conjunct2, THEN conjunct2, THEN conjunct2,
        THEN conjunct1] s(1) by blast
  have r1: "candidateIndex (onEvent exampleEngine candidates ErrorEvent ?a) = 1"
    using R [THEN conjunct1] a(2) s(2) by simp
  have r2: "terminated (onEvent exampleEngine candidates ErrorEvent ?a) = candidates"
    using R [THEN conjunct2, THEN conjunct1] a(4,5,7) s(2) by simp
  have r3: "onEvent exampleEngine candidates ErrorEvent ?a =
      snd (tryNextCandidate exampleEngine candidates ?a)"
    using R [THEN conjunct2, THEN conjunct2, THEN conjunct1] s(2) by blast
  have r7: "\<not> fst (tryNextCandidate exampleEngine candidates ?a)"
    using R [THEN conjunct2, THEN conjunct2, THEN conjunct2, THEN conjunct2, THEN conjunct2,
        THEN conjunct2, THEN conjunct1] a(2,6) by simp
  have r8: "readyCalls (onEvent exampleEngine candidates ErrorEvent ?a) = [False]"
    unfolding r3
    using R [THEN conjunct2, THEN conjunct2, THEN conjunct2, THEN conjunct2, THEN conjunct2,
        THEN conjunct2, THEN conjunct2, THEN conjunct1] r7 a(3) by simp
  have o3: "onEvent exampleEngine ?cs (Object ''error'' None) ?b =
      snd (tryNextCandidate exampleEngine ?cs ?b)"
    using O [THEN conjunct2, THEN conjunct2, THEN conjunct1] s(4) by blast
  have o7: "fst (tryNextCandidate exampleEngine ?cs ?b)"
    using O [THEN conjunct2, THEN conjunct2, THEN conjunct2, THEN conjunct2, THEN conjunct2,
        THEN conjunct2, THEN conjunct1] b(1,3) by simp
  have o8: "readyCalls (onEvent exampleEngine ?cs (Object ''error'' None) ?b) = []"
    unfolding o3
    using O [THEN conjunct2, THEN conjunct2, THEN conjunct2, THEN conjunct2, THEN conjunct2,
        THEN conjunct2, THEN conjunct2, THEN conjunct1] o7 b(2) by simp
  have o9: "workerRef (onEvent exampleEngine ?cs (Object ''error'' None) ?b) = Some secondUrl"
    unfolding o3
    using O [THEN conjunct2, THEN conjunct2, THEN conjunct2, THEN conjunct2, THEN conjunct2,
        THEN conjunct2, THEN conjunct2, THEN conjunct2] o7 b(1) by simp
  show ?thesis
    unfolding Let_def
    using a(1,2) s w1 w2 w5' w6 r1 r2 r8 o8 o9 by blast
qed

section \<open>Properties of the analysis scheduler\<close>

text \<open>The passes leave the list of played moves alone.\<close>

lemma analyzeFenOnce_sans [simp]:
  "sans (snd (analyzeFenOnce lib E fen arg mpvArg a)) = sans a"
  by (simp add: analyzeFenOnce_def Let_def split: option.splits prod.splits)

lemma prepare_sans [simp]: "sans (prepare E mpv a) = sans a"
  by (simp add: prepare_def)

lemma firstPass_sans [simp]:
  "sans (snd (firstPass lib E (mt, dp, mpv) n fs i nxt a)) = sans a"
proof (induction fs arbitrary: i nxt a)
  case Nil
  show ?case by simp
next
  case (Cons fen rest)
  obtain ev a1 where r: "analyzeFenOnce lib E fen
      (OptsObject \<lparr> optDepth = Some dp, optMovetime = mt, optMultiPV = Some mpv \<rparr>) None a = (ev, a1)"
    by (cases "analyzeFenOnce lib E fen
      (OptsObject \<lparr> optDepth = Some dp, optMovetime = mt, optMultiPV = Some mpv \<rparr>) None a") auto
  have "sans a1 = sans a" using analyzeFenOnce_sans [of lib E fen _ None a] r
    by (metis snd_conv)
  then show ?case using r Cons.IH by (simp add: Let_def split: option.splits)
qed


lemma stablePass_sans [simp]:
  "sans (snd (stablePass lib E (dp, mpv) n nxt fs i fin a)) = sans a"
proof (induction fs arbitrary: i fin a)
  case Nil
  show ?case by simp
next
  case (Cons fen rest)
  obtain ev a1 where r: "analyzeFenOnce lib E fen
      (OptsObject \<lparr> optDepth = Some dp, optMovetime = None, optMultiPV = Some mpv \<rparr>) None a = (ev, a1)"
    by (cases "analyzeFenOnce lib E fen
      (OptsObject \<lparr> optDepth = Some dp, optMovetime = None, optMultiPV = Some mpv \<rparr>) None a") auto
  have "sans a1 = sans a" using analyzeFenOnce_sans [of lib E fen _ None a] r
    by (metis snd_conv)
  then show ?case using r Cons.IH by (simp add: Let_def)
qed


lemma deepen_sans [simp]: "sans (snd (deepen lib E opts fen i fin a)) = sans a"
proof -
  obtain dd dm where o: "opts = (dd, dm)" by (cases opts) auto
  obtain ev a1 where r: "analyzeFenOnce lib E fen
      (OptsObject \<lparr> optDepth = Some dd, optMovetime = None, optMultiPV = Some dm \<rparr>) None a = (ev, a1)"
    by (cases "analyzeFenOnce lib E fen
      (OptsObject \<lparr> optDepth = Some dd, optMovetime = None, optMultiPV = Some dm \<rparr>) None a") auto
  have "sans a1 = sans a" using analyzeFenOnce_sans [of lib E fen _ None a] r
    by (metis snd_conv)
  then show ?thesis using o r
    by (simp add: deepen_def split: option.splits)
qed



lemma deepPass_sans [simp]:
  "sans (snd (deepPass lib E opts fs i fin a)) = sans a"
proof (induction fs arbitrary: i fin a)
  case Nil
  show ?case by simp
next
  case (Cons fen rest)
  obtain fin' a1 where r: "deepen lib E opts fen i fin a = (fin', a1)"
    by (cases "deepen lib E opts fen i fin a") auto
  have "sans a1 = sans a" using deepen_sans [of lib E opts fen i fin a] r by simp
  then show ?case using r Cons.IH by simp
qed



lemma deepStates_length [simp]:
  "length (deepStates lib E opts fs i fin a) = length fs"
proof (induction fs arbitrary: i fin a)
  case Nil
  show ?case by simp
next
  case (Cons fen rest)
  then show ?case by (simp split: prod.splits)
qed


lemma firstPhase_sans [simp]: "sans (snd (firstPhase lib E depth fenList ob a)) = sans a"
  by (simp add: firstPhase_def Let_def)

lemma stablePhase_sans [simp]: "sans (snd (stablePhase lib E fenList ob st)) = sans (snd st)"
  by (cases st) (simp add: stablePhase_def)









section \<open>Properties of the per-move accuracy\<close>

lemma powr_2000_bound: "(223::real) \<le> 2000 powr 0.88"
proof -
  define y :: real where "y = 2000 powr (3/4)"
  have ypos: "0 < y" by (simp add: y_def)
  have "y powr 4 = 2000 powr 3" by (simp add: y_def powr_powr)
  moreover have "y powr 4 = y ^ 4" using ypos by simp
  moreover have "(2000::real) powr 3 = 8000000000" by simp
  ultimately have y4: "y ^ 4 = 8000000000" by simp
  have "223 \<le> y"
  proof (rule ccontr)
    assume "\<not> 223 \<le> y"
    then have "y < 223" by simp
    then have "y ^ 4 < 223 ^ 4" using ypos by (intro power_strict_mono) simp_all
    then show False using y4 by simp
  qed
  also have "y \<le> 2000 powr 0.88"
    unfolding y_def by (intro powr_mono) simp_all
  finally show ?thesis .
qed

lemma topSan_sacFen:
  "bestmoveUci ev = Some ''h5f3'' \<Longrightarrow> topSan exampleLib sacFen ev = Some ''Qf3''"
  by (simp add: topSan_def topUci_def truthy_def lib_san)

lemma forcedPerfect_top_line:
  assumes "sameSan (topSan lib fen best) playedSan"
    and "\<not> (acceleratesMate best after \<and> cpLossOf best after > 10)"
  shows "forcedPerfect lib fen best after playedSan"
  using assms by (auto simp add: forcedPerfect_def matchesTopLines_def Let_def)

text \<open>
  Claim C2, as stated, fails: the mover is being mated in five, plays the engine's top
  move (the best move and the rank-1 line agree on it), and the evaluation after the
  move is a mate in three against the mover. The played SAN equals the SAN of the top
  line, the match is set aside because the move accelerates the mate, the loss is 2000
  centipawns, and the accuracy of the move is 0.
\<close>

theorem top_line_accuracy_counterexample:
  "map_option uci (pv1Of matedInFive) = Some ''h5f3'' \<and>
   uciToSan exampleLib sacFen ''h5f3'' = Some ''Qf3'' \<and>
   sameSan (topSan exampleLib sacFen matedInFive) (Some ''Qf3'') \<and>
   moveAccuracy exampleLib sacFen matedInFive matedInThree (Some ''Qf3'') = 0"
proof -
  have pv1: "map_option uci (pv1Of matedInFive) = Some ''h5f3''"
    by (simp add: pv1Of_def matedInFive_def)
  have conv: "uciToSan exampleLib sacFen ''h5f3'' = Some ''Qf3''"
    by (rule lib_san)
  have loss: "cpLossOf matedInFive matedInThree = 2000"
    by (simp add: cpLossOf_def bestCpOf_def playedCpOf_def mateToScore_def
        matedInFive_def matedInThree_def)
  have same: "sameSan (topSan exampleLib sacFen matedInFive) (Some ''Qf3'')"
    by (simp add: topSan_sacFen matedInFive_def sameSan_def truthy_def)
  have acc: "acceleratesMate matedInFive matedInThree"
    by (simp add: acceleratesMate_def matedInFive_def matedInThree_def)
  have fp: "\<not> forcedPerfect exampleLib sacFen matedInFive matedInThree (Some ''Qf3'')"
    using same acc loss by (simp add: forcedPerfect_def matchesTopLines_def Let_def)
  have sc: "evScore matedInThree \<noteq> Mate 0" "evScore matedInFive = Mate (- 5)"
    by (simp_all add: matedInThree_def matedInFive_def)
  have base: "max 0 (100 - 0.45 * (2000::real) powr 0.88) = 0"
    using powr_2000_bound by simp
  have "moveAccuracy exampleLib sacFen matedInFive matedInThree (Some ''Qf3'') = 0"
    using fp sc loss base by (simp add: moveAccuracy_def Let_def)
  then show ?thesis using pv1 conv same by simp
qed

text \<open>
  Claim C2, amended: for every move that has both adjacent evaluations, if the played
  move's SAN equals the SAN of the engine's rank-1 line at the position (as
  \<^verbatim>\<open>playerStats\<close> takes it: the best move, else the variation of rank 1), the accuracy
  of the move is exactly 100, unless the move accelerates a mate against the mover (the
  evaluation before the move is a mate against the mover and the evaluation after it a
  shorter one) with a loss of more than 10 centipawns.
\<close>

theorem top_line_accuracy_100:
  assumes "sameSan (topSan lib fen best) playedSan"
    and "\<not> (acceleratesMate best after \<and> cpLossOf best after > 10)"
  shows "moveAccuracy lib fen best after playedSan = 100"
  using forcedPerfect_top_line [OF assms] by (simp add: moveAccuracy_def Let_def)

theorem top_line_accuracy_100_witness:
  "sameSan (topSan exampleLib sacFen stableEval) (Some ''Qf3'') \<and>
   \<not> (acceleratesMate stableEval lostEval \<and> cpLossOf stableEval lostEval > 10) \<and>
   cpLossOf stableEval lostEval = 320 \<and>
   moveAccuracy exampleLib sacFen stableEval lostEval (Some ''Qf3'') = 100"
proof -
  have same: "sameSan (topSan exampleLib sacFen stableEval) (Some ''Qf3'')"
    by (simp add: topSan_sacFen stableEval_def sameSan_def truthy_def)
  have acc: "\<not> (acceleratesMate stableEval lostEval \<and> cpLossOf stableEval lostEval > 10)"
    by (simp add: acceleratesMate_def stableEval_def lostEval_def)
  have loss: "cpLossOf stableEval lostEval = 320"
    by (simp add: cpLossOf_def bestCpOf_def playedCpOf_def stableEval_def lostEval_def)
  show ?thesis using top_line_accuracy_100 [OF same acc] same acc loss by blast
qed

end
